theory Spec2Isabelle
  imports Complex_Main
begin

section \<open>JavaScript values\<close>

text \<open>
  The webhook body, the value returned by \<^verbatim>\<open>JSON.parse\<close> and the value of
  \<^verbatim>\<open>response.json()\<close> are untyped JavaScript values. The type parameter \<open>'n\<close> stands
  for the JavaScript numbers: the service only ever tests whether a value is a number and
  never computes with one. Strings are byte strings: the UTF-8 encoding of the JavaScript
  string, with a surrogate outside a pair written as the three bytes that UTF-8 would
  give its code unit. The only string measure the schemas use is \<^verbatim>\<open>min(1)\<close>, which
  does not depend on the unit counted. An object is the list of its own properties in
  insertion order.
\<close>

datatype 'n js =
    JUndefined
  | JNull
  | JBool bool
  | JNum 'n
  | JStr string
  | JArr "'n js list"
  | JObj "(string \<times> 'n js) list"

text \<open>Reading a property of an object: an absent key reads as \<^verbatim>\<open>undefined\<close>.\<close>

definition get_prop :: "(string \<times> 'n js) list \<Rightarrow> string \<Rightarrow> 'n js" where
  "get_prop kvs k = (case map_of kvs k of None \<Rightarrow> JUndefined | Some v \<Rightarrow> v)"

text \<open>
  Writing a property: an existing key keeps its position and takes the new value, a new key
  is appended. The spread \<^verbatim>\<open>{...src}\<close> inside an object literal writes the properties of
  \<^verbatim>\<open>src\<close> in order.
\<close>

fun set_prop :: "(string \<times> 'n js) list \<Rightarrow> string \<Rightarrow> 'n js \<Rightarrow> (string \<times> 'n js) list" where
  "set_prop [] k v = [(k, v)]"
| "set_prop ((k', v') # kvs) k v =
     (if k' = k then (k, v) # kvs else (k', v') # set_prop kvs k v)"

fun spread :: "(string \<times> 'n js) list \<Rightarrow> (string \<times> 'n js) list \<Rightarrow> (string \<times> 'n js) list" where
  "spread target [] = target"
| "spread target ((k, v) # src) = spread (set_prop target k v) src"

section \<open>The zod validators used by the schema module\<close>

text \<open>
  \<^verbatim>\<open>schema.safeParse(value)\<close> never throws: it returns either the list of issues, each
  with the path of the offending value, or the parsed data. Issues are collected over all
  fields and all array elements, in the order of the shape.
\<close>

datatype path_elem = Key string | Index nat

datatype issue_kind = Required | InvalidType | TooSmall | InvalidEmail | InvalidEnumValue

datatype zod_issue = Issue "path_elem list" issue_kind

type_synonym ('n, 'a) zod = "path_elem list \<Rightarrow> 'n js \<Rightarrow> zod_issue list + 'a"

definition invalid :: "path_elem list \<Rightarrow> 'n js \<Rightarrow> zod_issue list" where
  "invalid p v = [Issue p (case v of JUndefined \<Rightarrow> Required | _ \<Rightarrow> InvalidType)]"

definition z_string :: "('n, string) zod" where
  "z_string p v = (case v of JStr s \<Rightarrow> Inr s | _ \<Rightarrow> Inl (invalid p v))"

definition z_number :: "('n, 'n) zod" where
  "z_number p v = (case v of JNum n \<Rightarrow> Inr n | _ \<Rightarrow> Inl (invalid p v))"

definition z_boolean :: "('n, bool) zod" where
  "z_boolean p v = (case v of JBool b \<Rightarrow> Inr b | _ \<Rightarrow> Inl (invalid p v))"

text \<open>\<^verbatim>\<open>.min(n)\<close> and \<^verbatim>\<open>.email()\<close> refine a string schema; no schema of the module
  chains two of them.\<close>

definition min_len :: "nat \<Rightarrow> ('n, string) zod \<Rightarrow> ('n, string) zod" where
  "min_len n z p v =
     (case z p v of
        Inl e \<Rightarrow> Inl e
      | Inr s \<Rightarrow> if length s < n then Inl [Issue p TooSmall] else Inr s)"

text \<open>The email test is zod's own regular expression; it is a parameter here.\<close>

definition email_check :: "(string \<Rightarrow> bool) \<Rightarrow> ('n, string) zod \<Rightarrow> ('n, string) zod" where
  "email_check isEmail z p v =
     (case z p v of
        Inl e \<Rightarrow> Inl e
      | Inr s \<Rightarrow> if isEmail s then Inr s else Inl [Issue p InvalidEmail])"

definition z_enum :: "string list \<Rightarrow> ('n, string) zod" where
  "z_enum options p v =
     (case v of
        JStr s \<Rightarrow> if s \<in> set options then Inr s else Inl [Issue p InvalidEnumValue]
      | _ \<Rightarrow> Inl (invalid p v))"

definition z_optional :: "('n, 'a) zod \<Rightarrow> ('n, 'a option) zod" where
  "z_optional z p v =
     (case v of
        JUndefined \<Rightarrow> Inr None
      | _ \<Rightarrow> (case z p v of Inl e \<Rightarrow> Inl e | Inr a \<Rightarrow> Inr (Some a)))"

text \<open>Two results side by side: the issues of both are reported.\<close>

fun both :: "zod_issue list + 'a \<Rightarrow> zod_issue list + 'b \<Rightarrow> zod_issue list + ('a \<times> 'b)" where
  "both (Inl e1) (Inl e2) = Inl (e1 @ e2)"
| "both (Inl e1) (Inr b) = Inl e1"
| "both (Inr a) (Inl e2) = Inl e2"
| "both (Inr a) (Inr b) = Inr (a, b)"

definition map_result :: "('a \<Rightarrow> 'b) \<Rightarrow> zod_issue list + 'a \<Rightarrow> zod_issue list + 'b" where
  "map_result f r = (case r of Inl e \<Rightarrow> Inl e | Inr a \<Rightarrow> Inr (f a))"

fun collect :: "(zod_issue list + 'a) list \<Rightarrow> zod_issue list + 'a list" where
  "collect [] = Inr []"
| "collect (r # rs) = map_result (\<lambda>(a, as). a # as) (both r (collect rs))"

definition z_array :: "('n, 'a) zod \<Rightarrow> ('n, 'a list) zod" where
  "z_array elem p v =
     (case v of
        JArr xs \<Rightarrow> collect (map (\<lambda>(i, x). elem (p @ [Index i]) x) (enumerate 0 xs))
      | _ \<Rightarrow> Inl (invalid p v))"

text \<open>
  \<^verbatim>\<open>z.object({...})\<close> accepts objects only (not arrays, not \<^verbatim>\<open>null\<close>), reads each key of
  its shape from the input and builds a fresh object of the parsed fields: keys of the
  input outside the shape are dropped.
\<close>

definition field :: "string \<Rightarrow> ('n, 'a) zod \<Rightarrow> path_elem list \<Rightarrow> (string \<times> 'n js) list \<Rightarrow> zod_issue list + 'a" where
  "field k z p kvs = z (p @ [Key k]) (get_prop kvs k)"

definition z_object :: "(path_elem list \<Rightarrow> (string \<times> 'n js) list \<Rightarrow> zod_issue list + 'a) \<Rightarrow> ('n, 'a) zod" where
  "z_object shape p v = (case v of JObj kvs \<Rightarrow> shape p kvs | _ \<Rightarrow> Inl (invalid p v))"

definition safeParse :: "('n, 'a) zod \<Rightarrow> 'n js \<Rightarrow> zod_issue list + 'a" where
  "safeParse z v = z [] v"

section \<open>The schema module\<close>

text \<open>
  The parsed data of a schema is typed (\<^verbatim>\<open>z.infer\<close>): a record per object shape. Field
  names carry a prefix naming their object, since several shapes share \<^verbatim>\<open>id\<close>,
  \<^verbatim>\<open>timestamp\<close> and \<^verbatim>\<open>description\<close>.
\<close>

record TranscriptBlock =
  tb_personName :: string
  tb_timestamp :: string
  tb_text :: string

record request =
  req_id :: string
  req_email :: string
  req_startTime :: string
  req_endTime :: string
  req_participants :: "string list"
  req_transcript :: "TranscriptBlock list"

definition TranscriptBlockSchema :: "('n, TranscriptBlock) zod" where
  "TranscriptBlockSchema = z_object (\<lambda>p kvs.
     map_result (\<lambda>(a, b, c). \<lparr>tb_personName = a, tb_timestamp = b, tb_text = c\<rparr>)
       (both (field ''personName'' (min_len 1 z_string) p kvs)
       (both (field ''timestamp'' (min_len 1 z_string) p kvs)
             (field ''text'' (min_len 1 z_string) p kvs))))"

definition TranscriptSchema :: "('n, TranscriptBlock list) zod" where
  "TranscriptSchema = z_array TranscriptBlockSchema"

definition requestSchema :: "(string \<Rightarrow> bool) \<Rightarrow> ('n, request) zod" where
  "requestSchema isEmail = z_object (\<lambda>p kvs.
     map_result (\<lambda>(a, b, c, d, e, f).
         \<lparr>req_id = a, req_email = b, req_startTime = c, req_endTime = d,
          req_participants = e, req_transcript = f\<rparr>)
       (both (field ''id'' (min_len 1 z_string) p kvs)
       (both (field ''email'' (email_check isEmail z_string) p kvs)
       (both (field ''startTime'' (min_len 1 z_string) p kvs)
       (both (field ''endTime'' (min_len 1 z_string) p kvs)
       (both (field ''participants'' (z_array (min_len 1 z_string)) p kvs)
             (field ''transcript'' TranscriptSchema p kvs)))))))"

record action_item =
  act_id :: string
  act_description :: string
  act_assignee :: string
  act_deadline :: string
  act_status :: string

record 'n mood_aspect =
  asp_mood :: string
  asp_score :: 'n

record 'n mood_graph =
  mg_aspects :: "'n mood_aspect list"
  mg_timestamp :: string

record timeline_event =
  tl_startTime :: string
  tl_endTime :: string
  tl_topic :: string
  tl_speaker :: string

record 'n participant_engagement =
  pe_participantId :: string
  pe_speakingTime :: 'n
  pe_interventionCount :: 'n
  pe_engagementScore :: 'n

record 'n sentiment_point =
  sp_timestamp :: string
  sp_sentiment :: 'n

record 'n sentiment_over_time =
  sot_overallSentiment :: 'n
  sot_sentimentPoints :: "'n sentiment_point list"

record question =
  q_id :: string
  q_text :: string
  q_askedBy :: string
  q_timestamp :: string
  q_answered :: bool

record resource_link =
  rl_id :: string
  rl_url :: string
  rl_title :: string
  rl_type :: string
  rl_mentionedAt :: string

record 'n meeting_metadata =
  md_title :: string
  md_shortDescription :: string
  md_description :: string
  md_takeaways :: "string list"
  md_actionItems :: "action_item list"
  md_moodGraph :: "'n mood_graph"
  md_timeline :: "timeline_event list"
  md_participantEngagement :: "'n participant_engagement list"
  md_sentimentOverTime :: "'n sentiment_over_time"
  md_questionTracker :: "question list"
  md_resourceLinks :: "resource_link list"
  md_meetingEfficiencyScore :: 'n

definition actionItemSchema :: "('n, action_item) zod" where
  "actionItemSchema = z_object (\<lambda>p kvs.
     map_result (\<lambda>(a, b, c, d, e).
         \<lparr>act_id = a, act_description = b, act_assignee = c, act_deadline = d, act_status = e\<rparr>)
       (both (field ''id'' (min_len 1 z_string) p kvs)
       (both (field ''description'' z_string p kvs)
       (both (field ''assignee'' z_string p kvs)
       (both (field ''deadline'' (min_len 1 z_string) p kvs)
             (field ''status'' (z_enum [''pending'', ''in_progress'', ''completed'']) p kvs))))))"

definition aspectSchema :: "('n, 'n mood_aspect) zod" where
  "aspectSchema = z_object (\<lambda>p kvs.
     map_result (\<lambda>(a, b). \<lparr>asp_mood = a, asp_score = b\<rparr>)
       (both (field ''mood'' z_string p kvs)
             (field ''score'' z_number p kvs)))"

definition moodGraphSchema :: "('n, 'n mood_graph) zod" where
  "moodGraphSchema = z_object (\<lambda>p kvs.
     map_result (\<lambda>(a, b). \<lparr>mg_aspects = a, mg_timestamp = b\<rparr>)
       (both (field ''aspects'' (z_array aspectSchema) p kvs)
             (field ''timestamp'' (min_len 1 z_string) p kvs)))"

definition timelineEventSchema :: "('n, timeline_event) zod" where
  "timelineEventSchema = z_object (\<lambda>p kvs.
     map_result (\<lambda>(a, b, c, d).
         \<lparr>tl_startTime = a, tl_endTime = b, tl_topic = c, tl_speaker = d\<rparr>)
       (both (field ''startTime'' (min_len 1 z_string) p kvs)
       (both (field ''endTime'' (min_len 1 z_string) p kvs)
       (both (field ''topic'' z_string p kvs)
             (field ''speaker'' z_string p kvs)))))"

definition participantEngagementSchema :: "('n, 'n participant_engagement) zod" where
  "participantEngagementSchema = z_object (\<lambda>p kvs.
     map_result (\<lambda>(a, b, c, d).
         \<lparr>pe_participantId = a, pe_speakingTime = b, pe_interventionCount = c,
          pe_engagementScore = d\<rparr>)
       (both (field ''participantId'' z_string p kvs)
       (both (field ''speakingTime'' z_number p kvs)
       (both (field ''interventionCount'' z_number p kvs)
             (field ''engagementScore'' z_number p kvs)))))"

definition sentimentPointSchema :: "('n, 'n sentiment_point) zod" where
  "sentimentPointSchema = z_object (\<lambda>p kvs.
     map_result (\<lambda>(a, b). \<lparr>sp_timestamp = a, sp_sentiment = b\<rparr>)
       (both (field ''timestamp'' (min_len 1 z_string) p kvs)
             (field ''sentiment'' z_number p kvs)))"

definition sentimentOverTimeSchema :: "('n, 'n sentiment_over_time) zod" where
  "sentimentOverTimeSchema = z_object (\<lambda>p kvs.
     map_result (\<lambda>(a, b). \<lparr>sot_overallSentiment = a, sot_sentimentPoints = b\<rparr>)
       (both (field ''overallSentiment'' z_number p kvs)
             (field ''sentimentPoints'' (z_array sentimentPointSchema) p kvs)))"

definition questionSchema :: "('n, question) zod" where
  "questionSchema = z_object (\<lambda>p kvs.
     map_result (\<lambda>(a, b, c, d, e).
         \<lparr>q_id = a, q_text = b, q_askedBy = c, q_timestamp = d, q_answered = e\<rparr>)
       (both (field ''id'' z_string p kvs)
       (both (field ''text'' z_string p kvs)
       (both (field ''askedBy'' z_string p kvs)
       (both (field ''timestamp'' (min_len 1 z_string) p kvs)
             (field ''answered'' z_boolean p kvs))))))"

definition resourceLinkSchema :: "('n, resource_link) zod" where
  "resourceLinkSchema = z_object (\<lambda>p kvs.
     map_result (\<lambda>(a, b, c, d, e).
         \<lparr>rl_id = a, rl_url = b, rl_title = c, rl_type = d, rl_mentionedAt = e\<rparr>)
       (both (field ''id'' z_string p kvs)
       (both (field ''url'' z_string p kvs)
       (both (field ''title'' z_string p kvs)
       (both (field ''type'' (z_enum [''document'', ''website'', ''video'', ''other'']) p kvs)
             (field ''mentionedAt'' (min_len 1 z_string) p kvs))))))"

text \<open>The schema with every field required (the first of the two schema files).\<close>

definition insertMeetingMetadataSchema :: "('n, 'n meeting_metadata) zod" where
  "insertMeetingMetadataSchema = z_object (\<lambda>p kvs.
     map_result (\<lambda>(a, b, c, d, e, f, g, h, i, j, k, l).
         \<lparr>md_title = a, md_shortDescription = b, md_description = c, md_takeaways = d,
          md_actionItems = e, md_moodGraph = f, md_timeline = g,
          md_participantEngagement = h, md_sentimentOverTime = i, md_questionTracker = j,
          md_resourceLinks = k, md_meetingEfficiencyScore = l\<rparr>)
       (both (field ''title'' z_string p kvs)
       (both (field ''shortDescription'' z_string p kvs)
       (both (field ''description'' z_string p kvs)
       (both (field ''takeaways'' (z_array z_string) p kvs)
       (both (field ''actionItems'' (z_array actionItemSchema) p kvs)
       (both (field ''moodGraph'' moodGraphSchema p kvs)
       (both (field ''timeline'' (z_array timelineEventSchema) p kvs)
       (both (field ''participantEngagement'' (z_array participantEngagementSchema) p kvs)
       (both (field ''sentimentOverTime'' sentimentOverTimeSchema p kvs)
       (both (field ''questionTracker'' (z_array questionSchema) p kvs)
       (both (field ''resourceLinks'' (z_array resourceLinkSchema) p kvs)
             (field ''meetingEfficiencyScore'' z_number p kvs)))))))))))))"

text \<open>
  The second schema file declares the same two schemas with every top-level field of the
  metadata optional.
\<close>

record 'n optional_meeting_metadata =
  omd_title :: "string option"
  omd_shortDescription :: "string option"
  omd_description :: "string option"
  omd_takeaways :: "string list option"
  omd_actionItems :: "action_item list option"
  omd_moodGraph :: "'n mood_graph option"
  omd_timeline :: "timeline_event list option"
  omd_participantEngagement :: "'n participant_engagement list option"
  omd_sentimentOverTime :: "'n sentiment_over_time option"
  omd_questionTracker :: "question list option"
  omd_resourceLinks :: "resource_link list option"
  omd_meetingEfficiencyScore :: "'n option"

definition insertMeetingMetadataSchema_optional :: "('n, 'n optional_meeting_metadata) zod" where
  "insertMeetingMetadataSchema_optional = z_object (\<lambda>p kvs.
     map_result (\<lambda>(a, b, c, d, e, f, g, h, i, j, k, l).
         \<lparr>omd_title = a, omd_shortDescription = b, omd_description = c, omd_takeaways = d,
          omd_actionItems = e, omd_moodGraph = f, omd_timeline = g,
          omd_participantEngagement = h, omd_sentimentOverTime = i, omd_questionTracker = j,
          omd_resourceLinks = k, omd_meetingEfficiencyScore = l\<rparr>)
       (both (field ''title'' (z_optional z_string) p kvs)
       (both (field ''shortDescription'' (z_optional z_string) p kvs)
       (both (field ''description'' (z_optional z_string) p kvs)
       (both (field ''takeaways'' (z_optional (z_array z_string)) p kvs)
       (both (field ''actionItems'' (z_optional (z_array actionItemSchema)) p kvs)
       (both (field ''moodGraph'' (z_optional moodGraphSchema) p kvs)
       (both (field ''timeline'' (z_optional (z_array timelineEventSchema)) p kvs)
       (both (field ''participantEngagement'' (z_optional (z_array participantEngagementSchema)) p kvs)
       (both (field ''sentimentOverTime'' (z_optional sentimentOverTimeSchema) p kvs)
       (both (field ''questionTracker'' (z_optional (z_array questionSchema)) p kvs)
       (both (field ''resourceLinks'' (z_optional (z_array resourceLinkSchema)) p kvs)
             (field ''meetingEfficiencyScore'' (z_optional z_number) p kvs)))))))))))))"

text \<open>
  The object that \<^verbatim>\<open>safeParse\<close> returns as \<^verbatim>\<open>data\<close>, as a JavaScript value: the keys
  of the shape, in the order of the shape, at every level.
\<close>

definition js_of_action_item :: "action_item \<Rightarrow> 'n js" where
  "js_of_action_item a = JObj
     [(''id'', JStr (act_id a)), (''description'', JStr (act_description a)),
      (''assignee'', JStr (act_assignee a)), (''deadline'', JStr (act_deadline a)),
      (''status'', JStr (act_status a))]"

definition js_of_aspect :: "'n mood_aspect \<Rightarrow> 'n js" where
  "js_of_aspect a = JObj [(''mood'', JStr (asp_mood a)), (''score'', JNum (asp_score a))]"

definition js_of_mood_graph :: "'n mood_graph \<Rightarrow> 'n js" where
  "js_of_mood_graph g = JObj
     [(''aspects'', JArr (map js_of_aspect (mg_aspects g))),
      (''timestamp'', JStr (mg_timestamp g))]"

definition js_of_timeline_event :: "timeline_event \<Rightarrow> 'n js" where
  "js_of_timeline_event t = JObj
     [(''startTime'', JStr (tl_startTime t)), (''endTime'', JStr (tl_endTime t)),
      (''topic'', JStr (tl_topic t)), (''speaker'', JStr (tl_speaker t))]"

definition js_of_participant_engagement :: "'n participant_engagement \<Rightarrow> 'n js" where
  "js_of_participant_engagement e = JObj
     [(''participantId'', JStr (pe_participantId e)),
      (''speakingTime'', JNum (pe_speakingTime e)),
      (''interventionCount'', JNum (pe_interventionCount e)),
      (''engagementScore'', JNum (pe_engagementScore e))]"

definition js_of_sentiment_point :: "'n sentiment_point \<Rightarrow> 'n js" where
  "js_of_sentiment_point s = JObj
     [(''timestamp'', JStr (sp_timestamp s)), (''sentiment'', JNum (sp_sentiment s))]"

definition js_of_sentiment_over_time :: "'n sentiment_over_time \<Rightarrow> 'n js" where
  "js_of_sentiment_over_time s = JObj
     [(''overallSentiment'', JNum (sot_overallSentiment s)),
      (''sentimentPoints'', JArr (map js_of_sentiment_point (sot_sentimentPoints s)))]"

definition js_of_question :: "question \<Rightarrow> 'n js" where
  "js_of_question q = JObj
     [(''id'', JStr (q_id q)), (''text'', JStr (q_text q)), (''askedBy'', JStr (q_askedBy q)),
      (''timestamp'', JStr (q_timestamp q)), (''answered'', JBool (q_answered q))]"

definition js_of_resource_link :: "resource_link \<Rightarrow> 'n js" where
  "js_of_resource_link r = JObj
     [(''id'', JStr (rl_id r)), (''url'', JStr (rl_url r)), (''title'', JStr (rl_title r)),
      (''type'', JStr (rl_type r)), (''mentionedAt'', JStr (rl_mentionedAt r))]"

definition props_of_metadata :: "'n meeting_metadata \<Rightarrow> (string \<times> 'n js) list" where
  "props_of_metadata d =
     [(''title'', JStr (md_title d)),
      (''shortDescription'', JStr (md_shortDescription d)),
      (''description'', JStr (md_description d)),
      (''takeaways'', JArr (map JStr (md_takeaways d))),
      (''actionItems'', JArr (map js_of_action_item (md_actionItems d))),
      (''moodGraph'', js_of_mood_graph (md_moodGraph d)),
      (''timeline'', JArr (map js_of_timeline_event (md_timeline d))),
      (''participantEngagement'',
         JArr (map js_of_participant_engagement (md_participantEngagement d))),
      (''sentimentOverTime'', js_of_sentiment_over_time (md_sentimentOverTime d)),
      (''questionTracker'', JArr (map js_of_question (md_questionTracker d))),
      (''resourceLinks'', JArr (map js_of_resource_link (md_resourceLinks d))),
      (''meetingEfficiencyScore'', JNum (md_meetingEfficiencyScore d))]"

section \<open>The prompt builder\<close>

text \<open>
  \<^verbatim>\<open>JSON.stringify(transcript, null, 2)\<close> on the validated transcript, an array of
  objects with the three string properties of the shape, in the order of the shape.
  A string is quoted as ECMAScript's QuoteJSONString does: the double quote, the backslash
  and the five control characters with a short form are escaped by a backslash, every other
  character below 0x20 is written as a lower-case \<^verbatim>\<open>\u00XX\<close>, a lone surrogate is
  written as its \<^verbatim>\<open>\uXXXX\<close>, and everything else is copied.
\<close>

definition backslash :: char where
  "backslash = CHR 0x5C"

definition dquote :: char where
  "dquote = CHR 0x22"

definition newline :: char where
  "newline = CHR 0x0A"

definition hex_digit :: "nat \<Rightarrow> char" where
  "hex_digit n = ''0123456789abcdef'' ! (n mod 16)"

definition quote_char :: "char \<Rightarrow> string" where
  "quote_char c =
     (if c = CHR 0x08 then [backslash, CHR ''b'']
      else if c = CHR 0x09 then [backslash, CHR ''t'']
      else if c = CHR 0x0A then [backslash, CHR ''n'']
      else if c = CHR 0x0C then [backslash, CHR ''f'']
      else if c = CHR 0x0D then [backslash, CHR ''r'']
      else if c = dquote then [backslash, dquote]
      else if c = backslash then [backslash, backslash]
      else if (of_char c :: nat) < 0x20
        then [backslash, CHR ''u'', CHR ''0'', CHR ''0'',
              hex_digit (of_char c div 16), hex_digit (of_char c)]
      else [c])"

text \<open>
  A lone surrogate, the code unit \<open>u\<close> in D800..DFFF outside a pair, is the three bytes
  ED, A0..BF, 80..BF of the string: \<open>u = D000 + (c2 - 80) * 40 + (c3 - 80)\<close> in
  hexadecimal. QuoteJSONString writes it as \<^verbatim>\<open>\u\<close> and the four lower-case hexadecimal
  digits of \<open>u\<close>. A surrogate pair is one four-byte character and is copied.
\<close>

definition is_lone_surrogate :: "char \<Rightarrow> char \<Rightarrow> char \<Rightarrow> bool" where
  "is_lone_surrogate c1 c2 c3 \<longleftrightarrow>
     c1 = CHR 0xED \<and> (0xA0 :: nat) \<le> of_char c2 \<and> (of_char c2 :: nat) \<le> 0xBF \<and>
     (0x80 :: nat) \<le> of_char c3 \<and> (of_char c3 :: nat) \<le> 0xBF"

definition surrogate_unit :: "char \<Rightarrow> char \<Rightarrow> nat" where
  "surrogate_unit c2 c3 = 0xD000 + (of_char c2 - 0x80) * 0x40 + (of_char c3 - 0x80)"

definition unicode_escape :: "nat \<Rightarrow> string" where
  "unicode_escape u =
     [backslash, CHR ''u'', hex_digit (u div 0x1000), hex_digit (u div 0x100),
      hex_digit (u div 0x10), hex_digit u]"

fun quote_chars :: "string \<Rightarrow> string" where
  "quote_chars (c1 # c2 # c3 # cs) =
     (if is_lone_surrogate c1 c2 c3
      then unicode_escape (surrogate_unit c2 c3) @ quote_chars cs
      else quote_char c1 @ quote_chars (c2 # c3 # cs))"
| "quote_chars (c # cs) = quote_char c @ quote_chars cs"
| "quote_chars [] = []"

definition quoteJSONString :: "string \<Rightarrow> string" where
  "quoteJSONString s = dquote # quote_chars s @ [dquote]"

definition stringify_property :: "string \<Rightarrow> string \<Rightarrow> string" where
  "stringify_property k v = ''    '' @ quoteJSONString k @ '': '' @ quoteJSONString v"

definition stringify_block :: "TranscriptBlock \<Rightarrow> string" where
  "stringify_block b =
     ''  {'' @ [newline] @
     stringify_property ''personName'' (tb_personName b) @ '','' @ [newline] @
     stringify_property ''timestamp'' (tb_timestamp b) @ '','' @ [newline] @
     stringify_property ''text'' (tb_text b) @ [newline] @
     ''  }''"

fun join_blocks :: "string list \<Rightarrow> string" where
  "join_blocks [] = []"
| "join_blocks [b] = b"
| "join_blocks (b # bs) = b @ '','' @ [newline] @ join_blocks bs"

definition stringify_transcript :: "TranscriptBlock list \<Rightarrow> string" where
  "stringify_transcript t =
     (if t = [] then ''[]''
      else ''['' @ [newline] @ join_blocks (map stringify_block t) @ [newline] @ '']'')"

definition text_of_lines :: "string list \<Rightarrow> string" where
  "text_of_lines ls = concat (map (\<lambda>l. l @ [newline]) ls)"

text \<open>The template literal of \<^verbatim>\<open>generatePrompt\<close>, before and after the interpolation.\<close>

definition prompt_head_lines :: "string list" where
  \<open>prompt_head_lines =
    [''You are tasked with analyzing a provided meeting transcript and generating a summary in the specified format. The transcript is provided as an array of objects, where each object represents a block of text spoken by a participant. Each block has the following properties:'',
     [],
     ''- `personName`: the name of the participant who spoke the text'',
     ''- `timestamp`: the timestamp of when the text was spoken '',
     ''- `text`: the actual text spoken by the participant'',
     []]\<close>

definition prompt_tail_lines :: "string list" where
  \<open>prompt_tail_lines =
    [[],
     [],
     ''Your goal is to process this transcript and output a meeting metadata object that includes the following properties:'',
     ''All Date and Time values should be in ISOString format. ALL THE SCORES SHOULD BE NUMBERS.'',
     [],
     ''```json'',
     ''{'',
     ''  "title": "a short, descriptive title for the meeting",'',
     ''  "shortDescription": "a brief summary of the meeting",'',
     ''  "description": "a longer, more detailed description of the meeting, must be at least 400 characters",'',
     ''  "takeaways": "a list of key takeaways or insights from the meeting",'',
     ''  "actionItems": ['',
     ''    {'',
     ''      "id": "a unique identifier for the action item",'',
     ''      "description": "a description of the action item",'',
     ''      "assignee": "the person assigned to the action item",'',
     ''      "deadline": "the deadline for the action item, ISOString format",'',
     ''      "status": "the current status of the action item ('pending', 'in_progress', 'completed')"'',
     ''    }'',
     ''  ],'',
     ''  "moodGraph": {'',
     ''    "aspects": ['',
     ''      {'',
     ''        "mood": "the aspect or type of mood being tracked e.g. 'happiness', 'stress', 'engagement'",'',
     ''        "score": "the score or intensity of that mood e.g. 0-100 number"'',
     ''      },'',
     ''      {'',
     ''        "mood": "the aspect or type of mood being tracked e.g. 'happiness', 'stress', 'engagement', 'confusion'",, 'engagement'",'',
     ''        "score": "the score or intensity of that mood e.g. 0-100 number"'',
     ''      },'',
     ''      {'',
     ''        "mood": "the aspect or type of mood being tracked e.g. 'happiness', 'stress', 'engagement', 'confusion'",, 'engagement'",'',
     ''        "score": "the score or intensity of that mood e.g. 0-100 number"'',
     ''      }'',
     ''    ],'',
     ''    "timestamp": "the timestamp associated with the mood data"'',
     ''  },'',
     ''  "timeline": ['',
     ''    {'',
     ''      "startTime": "the start time of the timeline event",'',
     ''      "endTime": "the end time of the timeline event",'',
     ''      "topic": "the topic or subject of the timeline event",'',
     ''      "speaker": "the speaker or presenter of the timeline event"'',
     ''    }'',
     ''  ],'',
     ''  "participantEngagement": ['',
     ''    {'',
     ''      "participantId": "the unique identifier of the participant",'',
     ''      "speakingTime": "the total time the participant spent speaking - number",'',
     ''      "interventionCount": "the number of times the participant intervened or spoke up - number",'',
     ''      "engagementScore": "an overall engagement score for the participant - number"'',
     ''    }'',
     ''  ],'',
     ''  "sentimentOverTime": {'',
     ''    "overallSentiment": "the overall sentiment score for the meeting - number",'',
     ''    "sentimentPoints": ['',
     ''      {'',
     ''        "timestamp": "the timestamp associated with the sentiment data",'',
     ''        "sentiment": "the sentiment score at that timestamp - number"'',
     ''      }'',
     ''    ]'',
     ''  },'',
     ''  "questionTracker": ['',
     ''    {'',
     ''      "id": "a unique identifier for the question",'',
     ''      "text": "the text of the question",'',
     ''      "askedBy": "the participant who asked the question",'',
     ''      "timestamp": "the timestamp when the question was asked",'',
     ''      "answered": "a boolean indicating whether the question was answered"'',
     ''    }'',
     ''  ],'',
     ''  "resourceLinks": ['',
     ''    {'',
     ''      "id": "a unique identifier for the resource link",'',
     ''      "url": "the URL of the resource",'',
     ''      "title": "the title or description of the resource",'',
     ''      "type": "the type of resource ('document', 'website', 'video', 'other')",'',
     ''      "mentionedAt": "the timestamp when the resource was mentioned"'',
     ''    }'',
     ''  ],'',
     ''  "meetingEfficiencyScore": "an overall score representing the efficiency of the meeting - number"'',
     ''}'',
     [],
     ''The input for this task is the meeting transcript, provided as an array of objects with the following structure:'',
     [],
     ''```json'',
     ''{'',
     ''  "transcript": ['',
     ''    {'',
     ''      "personName": "string",'',
     ''      "timestamp": "string",'',
     ''      "text": "string"'',
     ''    }'',
     ''  ]'',
     ''}'',
     ''```'',
     [],
     ''Your task is to process this transcript and generate the meeting metadata object as described above. NEVER INCLUDE ANY PERSONAL INFORMATION, NEVER ADD INFORMATION THAT ISNT IN THE TRANSCRIPT, AND NEVER INCLUDE ANYTHING THAT COULD BE CONSIDERED OFFENSIVE OR INAPPROPRIATE. The output should be a JSON object that adheres to the specified format. Good luck!'']\<close>

definition generatePrompt :: "TranscriptBlock list \<Rightarrow> string" where
  "generatePrompt transcript =
     text_of_lines prompt_head_lines @ stringify_transcript transcript @
     text_of_lines prompt_tail_lines"

section \<open>The presentation renderer\<close>

text \<open>
  A PptxGenJS deck is the list of its slides, a slide the list of the text boxes added to
  it, each with its options. \<^verbatim>\<open>addSlide\<close> appends an empty slide and hands back a
  reference to it (its position); \<^verbatim>\<open>addText\<close> appends to the slide referred to.
  \<^verbatim>\<open>pptx.write()\<close> serialises the deck: the blob is represented by the deck it holds.
\<close>

record text_options =
  opt_x :: rat
  opt_y :: rat
  opt_w :: "string option"
  opt_h :: "rat option"
  opt_fontSize :: nat
  opt_bold :: "bool option"

type_synonym slide = "(string \<times> text_options) list"

type_synonym pptx = "slide list"

datatype blob = PptxFile pptx

definition addSlide :: "pptx \<Rightarrow> pptx \<times> nat" where
  "addSlide pptx = (pptx @ [[]], length pptx)"

definition addText :: "nat \<Rightarrow> string \<Rightarrow> text_options \<Rightarrow> pptx \<Rightarrow> pptx" where
  "addText slide t opts pptx = pptx[slide := pptx ! slide @ [(t, opts)]]"

definition pptx_write :: "pptx \<Rightarrow> blob" where
  "pptx_write pptx = PptxFile pptx"

text \<open>\<^verbatim>\<open>xs.forEach((x, index) => ...)\<close> with the state the callback updates.\<close>

fun forEach_from :: "nat \<Rightarrow> ('a \<Rightarrow> nat \<Rightarrow> 's \<Rightarrow> 's) \<Rightarrow> 'a list \<Rightarrow> 's \<Rightarrow> 's" where
  "forEach_from i f [] s = s"
| "forEach_from i f (x # xs) s = forEach_from (Suc i) f xs (f x i s)"

definition forEach :: "('a \<Rightarrow> nat \<Rightarrow> 's \<Rightarrow> 's) \<Rightarrow> 'a list \<Rightarrow> 's \<Rightarrow> 's" where
  "forEach f xs s = forEach_from 0 f xs s"

text \<open>The bullet and the space after it, in UTF-8.\<close>

definition bullet :: string where
  "bullet = [CHR 0xE2, CHR 0x80, CHR 0xA2, CHR 0x20]"

definition heading_options :: text_options where
  "heading_options =
     \<lparr>opt_x = 1, opt_y = 1 / 2, opt_w = None, opt_h = None, opt_fontSize = 18,
      opt_bold = Some True\<rparr>"

definition line_options :: "nat \<Rightarrow> text_options" where
  "line_options index =
     \<lparr>opt_x = 1, opt_y = 1 + of_nat index * (1 / 2), opt_w = None, opt_h = None,
      opt_fontSize = 14, opt_bold = None\<rparr>"

definition generatePresentation :: "'n meeting_metadata \<Rightarrow> string \<Rightarrow> blob" where
  "generatePresentation data ident =
     (let pptx = [];
          (pptx, slide) = addSlide pptx;
          pptx = addText slide (md_title data)
                   \<lparr>opt_x = 1, opt_y = 1, opt_w = Some ''80%'', opt_h = Some 1,
                    opt_fontSize = 24, opt_bold = Some True\<rparr> pptx;
          (pptx, slide) = addSlide pptx;
          pptx = addText slide ''Summary'' heading_options pptx;
          pptx = addText slide (md_description data)
                   \<lparr>opt_x = 1, opt_y = 1, opt_w = Some ''80%'', opt_h = Some 4,
                    opt_fontSize = 14, opt_bold = None\<rparr> pptx;
          (pptx, slide) = addSlide pptx;
          pptx = addText slide ''Key Points'' heading_options pptx;
          pptx = forEach (\<lambda>point index. addText slide (bullet @ point) (line_options index))
                   (md_takeaways data) pptx;
          (pptx, slide) = addSlide pptx;
          pptx = addText slide ''Action Items'' heading_options pptx;
          pptx = forEach (\<lambda>item index.
                     addText slide (bullet @ act_description item) (line_options index))
                   (md_actionItems data) pptx
      in pptx_write pptx)"

section \<open>The collaborators of the webhook\<close>

text \<open>
  What the handler reaches outside itself is a parameter: the environment variable, the
  email test of zod, the chatbot, \<^verbatim>\<open>JSON.parse\<close> (\<open>None\<close> when it throws its
  SyntaxError) and \<^verbatim>\<open>fetch\<close>. A promise that rejects, like a call that throws, is an
  \<open>Inl\<close>.
\<close>

datatype js_error = SyntaxError | TypeError | Error string

record ask_options =
  responseFormat :: string
  temperature :: rat

datatype 'n fetch_body = JsonText "'n js" | Binary blob

record 'n fetch_request =
  rq_url :: "'n js"
  rq_method :: string
  rq_headers :: "(string \<times> string) list"
  rq_body :: "'n fetch_body option"

record 'n fetch_response =
  rs_ok :: bool
  rs_json :: "js_error + 'n js"

record 'n env =
  BACKEND_API_URL :: "string option"
  isEmail :: "string \<Rightarrow> bool"
  ask :: "string \<Rightarrow> string \<Rightarrow> string \<Rightarrow> ask_options \<Rightarrow> js_error + string"
  JSON_parse :: "string \<Rightarrow> 'n js option"
  fetch :: "'n fetch_request \<Rightarrow> js_error + 'n fetch_response"

text \<open>Everything the handler does that can be seen from outside, in order.\<close>

datatype 'n event =
    Ask string string string ask_options
  | Fetch "'n fetch_request"
  | Presentation blob

text \<open>An unset environment variable reads as \<^verbatim>\<open>undefined\<close> inside a template literal.\<close>

definition env_string :: "string option \<Rightarrow> string" where
  "env_string v = (case v of None \<Rightarrow> ''undefined'' | Some s \<Rightarrow> s)"

text \<open>\<^verbatim>\<open>data.url\<close> on an untyped value: reading a property of \<^verbatim>\<open>null\<close> or
  \<^verbatim>\<open>undefined\<close> throws, any other value without the property gives \<^verbatim>\<open>undefined\<close>.\<close>

definition get_member :: "'n js \<Rightarrow> string \<Rightarrow> js_error + 'n js" where
  "get_member v k =
     (case v of
        JObj kvs \<Rightarrow> Inr (get_prop kvs k)
      | JNull \<Rightarrow> Inl TypeError
      | JUndefined \<Rightarrow> Inl TypeError
      | _ \<Rightarrow> Inr JUndefined)"

definition signed_url_request :: "'n env \<Rightarrow> string \<Rightarrow> 'n fetch_request" where
  "signed_url_request env ident =
     \<lparr>rq_url = JStr (env_string (BACKEND_API_URL env) @ ''/signed-url/'' @ ident),
      rq_method = ''GET'', rq_headers = [], rq_body = None\<rparr>"

definition getPresignedUploadUrl :: "'n env \<Rightarrow> string \<Rightarrow> (js_error + 'n js) \<times> 'n event list" where
  "getPresignedUploadUrl env ident =
     (let req = signed_url_request env ident in
      (case fetch env req of
         Inl e \<Rightarrow> Inl e
       | Inr response \<Rightarrow>
           if \<not> rs_ok response then Inl (Error ''Failed to get pre-signed upload URL'')
           else (case rs_json response of
                   Inl e \<Rightarrow> Inl e
                 | Inr data \<Rightarrow> get_member data ''url''),
       [Fetch req]))"

section \<open>The webhook handler\<close>

datatype error_value = NoError | Message string | ValidationError "zod_issue list"

record summary_result =
  success :: bool
  error :: error_value

datatype outcome = Returned summary_result | Threw js_error

record 'n WebhookRequest =
  body :: "'n js"

definition summary_ask_options :: ask_options where
  "summary_ask_options = \<lparr>responseFormat = ''json_object'', temperature = 3 / 10\<rparr>"

definition meeting_request :: "'n env \<Rightarrow> string \<Rightarrow> string \<Rightarrow> 'n meeting_metadata \<Rightarrow> 'n fetch_request" where
  "meeting_request env ident email data =
     \<lparr>rq_url = JStr (env_string (BACKEND_API_URL env) @ ''/meeting''),
      rq_method = ''PUT'',
      rq_headers = [(''Content-Type'', ''application/json'')],
      rq_body = Some (JsonText (JObj
        (spread [(''id'', JStr ident), (''email'', JStr email)] (props_of_metadata data))))\<rparr>"

definition upload_request :: "'n js \<Rightarrow> blob \<Rightarrow> 'n fetch_request" where
  "upload_request uploadUrl pptxBlob =
     \<lparr>rq_url = uploadUrl,
      rq_method = ''PUT'',
      rq_headers = [(''Content-Type'', ''application/octet-stream'')],
      rq_body = Some (Binary pptxBlob)\<rparr>"

definition handleSummary :: "'n env \<Rightarrow> 'n WebhookRequest \<Rightarrow> outcome \<times> 'n event list" where
  "handleSummary env request =
     (case safeParse (requestSchema (isEmail env)) (body request) of
        Inl _ \<Rightarrow> (Returned \<lparr>success = False, error = Message ''Invalid request''\<rparr>, [])
      | Inr parsedRequest \<Rightarrow>
          let ident = req_id parsedRequest;
              email = req_email parsedRequest;
              transcript = req_transcript parsedRequest;
              prompt = generatePrompt transcript;
              trace = [Ask ''zenai'' ''zenai-summary-bot'' prompt summary_ask_options]
          in
          (case ask env ''zenai'' ''zenai-summary-bot'' prompt summary_ask_options of
             Inl e \<Rightarrow> (Threw e, trace)
           | Inr result \<Rightarrow>
          (case JSON_parse env result of
             None \<Rightarrow> (Threw SyntaxError, trace)
           | Some parsed \<Rightarrow>
          (case safeParse insertMeetingMetadataSchema parsed of
             Inl err \<Rightarrow> (Returned \<lparr>success = False, error = ValidationError err\<rparr>, trace)
           | Inr data \<Rightarrow>
          let putRequest = meeting_request env ident email data;
              trace = trace @ [Fetch putRequest]
          in
          (case fetch env putRequest of
             Inl e \<Rightarrow> (Threw e, trace)
           | Inr res \<Rightarrow>
          if \<not> rs_ok res
          then (Returned \<lparr>success = False, error = Message ''Failed to update meeting metadata''\<rparr>,
                trace)
          else
          let pptxBlob = generatePresentation data ident;
              trace = trace @ [Presentation pptxBlob];
              (uploadUrl, fetched) = getPresignedUploadUrl env (''presentation-'' @ ident @ ''.pptx'');
              trace = trace @ fetched
          in
          (case uploadUrl of
             Inl e \<Rightarrow> (Threw e, trace)
           | Inr uploadUrl \<Rightarrow>
          let uploadRequest = upload_request uploadUrl pptxBlob;
              trace = trace @ [Fetch uploadRequest]
          in
          (case fetch env uploadRequest of
             Inl e \<Rightarrow> (Threw e, trace)
           | Inr uploadRes \<Rightarrow>
          if \<not> rs_ok uploadRes
          then (Returned \<lparr>success = False, error = Message ''Failed to upload presentation''\<rparr>,
                trace)
          else (Returned \<lparr>success = True, error = NoError\<rparr>, trace))))))))"

section \<open>Vocabulary of the properties\<close>

text \<open>Shorthand for the calls the handler makes on behalf of a validated request.\<close>

definition chatbot_answer :: "'n env \<Rightarrow> request \<Rightarrow> js_error + string" where
  "chatbot_answer env r =
     ask env ''zenai'' ''zenai-summary-bot'' (generatePrompt (req_transcript r)) summary_ask_options"

definition ask_event :: "request \<Rightarrow> 'n event" where
  "ask_event r =
     Ask ''zenai'' ''zenai-summary-bot'' (generatePrompt (req_transcript r)) summary_ask_options"

definition store_request :: "'n env \<Rightarrow> request \<Rightarrow> 'n meeting_metadata \<Rightarrow> 'n fetch_request" where
  "store_request env r data = meeting_request env (req_id r) (req_email r) data"

definition artifact_name :: "request \<Rightarrow> string" where
  "artifact_name r = ''presentation-'' @ req_id r @ ''.pptx''"

text \<open>A call of the metadata store: a PUT on the meeting endpoint of the backend.\<close>

definition is_store_call :: "'n env \<Rightarrow> 'n event \<Rightarrow> bool" where
  "is_store_call env e =
     (case e of
        Fetch rq \<Rightarrow>
          rq_url rq = JStr (env_string (BACKEND_API_URL env) @ ''/meeting'') \<and>
          rq_method rq = ''PUT''
      | _ \<Rightarrow> False)"

definition store_calls :: "'n env \<Rightarrow> 'n event list \<Rightarrow> nat" where
  "store_calls env trace = length (filter (is_store_call env) trace)"

text \<open>What the properties say about inputs: a body with a usable email, a parsed answer that
  lacks a field, and the keys of the metadata shape.\<close>

definition has_valid_email :: "(string \<Rightarrow> bool) \<Rightarrow> 'n js \<Rightarrow> bool" where
  "has_valid_email is_email v =
     (case v of
        JObj kvs \<Rightarrow> (case get_prop kvs ''email'' of JStr s \<Rightarrow> is_email s | _ \<Rightarrow> False)
      | _ \<Rightarrow> False)"

definition metadata_keys :: "string list" where
  "metadata_keys =
     [''title'', ''shortDescription'', ''description'', ''takeaways'', ''actionItems'',
      ''moodGraph'', ''timeline'', ''participantEngagement'', ''sentimentOverTime'',
      ''questionTracker'', ''resourceLinks'', ''meetingEfficiencyScore'']"

definition lacks_field :: "'n js \<Rightarrow> string \<Rightarrow> bool" where
  "lacks_field v k = (case v of JObj kvs \<Rightarrow> map_of kvs k = None | _ \<Rightarrow> True)"

definition issues_of :: "zod_issue list + 'a \<Rightarrow> zod_issue list" where
  "issues_of r = (case r of Inl e \<Rightarrow> e | Inr _ \<Rightarrow> [])"

text \<open>
  What it means that keys outside a shape are stripped: \<open>pick\<close> keeps the listed
  properties of an object, in the listed order; \<open>each\<close> does something to every element
  of an array; \<open>prop_of\<close> reads a property of a value that is expected to be an object.
\<close>

definition pick :: "string list \<Rightarrow> 'n js \<Rightarrow> 'n js" where
  "pick ks v = (case v of JObj kvs \<Rightarrow> JObj (map (\<lambda>k. (k, get_prop kvs k)) ks) | _ \<Rightarrow> v)"

definition prop_of :: "'n js \<Rightarrow> string \<Rightarrow> 'n js" where
  "prop_of v k = (case v of JObj kvs \<Rightarrow> get_prop kvs k | _ \<Rightarrow> JUndefined)"

definition each :: "('n js \<Rightarrow> 'n js) \<Rightarrow> 'n js \<Rightarrow> 'n js" where
  "each f v = (case v of JArr xs \<Rightarrow> JArr (map f xs) | _ \<Rightarrow> v)"




section \<open>A sample run\<close>

text \<open>
  The request of the end-to-end scenario, a chatbot answer holding a fully populated
  metadata object, and collaborators that answer as the scenario's stubs do. The stand-in
  for \<^verbatim>\<open>JSON.parse\<close> knows the JSON texts of the sample and rejects every other text, as
  it must reject \<^verbatim>\<open>not json\<close>; the stand-in for the email test asks for a non-empty local
  part, one \<^verbatim>\<open>@\<close> and a dot in the domain.
\<close>

definition sample_request :: "rat WebhookRequest" where
  "sample_request = \<lparr>body = JObj
     [(''id'', JStr ''m1''),
      (''email'', JStr ''a@b.com''),
      (''startTime'', JStr ''t0''),
      (''endTime'', JStr ''t1''),
      (''participants'', JArr [JStr ''Alice'']),
      (''transcript'', JArr [JObj
         [(''personName'', JStr ''Alice''), (''timestamp'', JStr ''t0''),
          (''text'', JStr ''hello'')]])]\<rparr>"

definition sample_metadata_props :: "(string \<times> rat js) list" where
  "sample_metadata_props =
     [(''title'', JStr ''Weekly sync''),
      (''shortDescription'', JStr ''Status''),
      (''description'', JStr ''Alice opened the meeting.''),
      (''takeaways'', JArr [JStr ''Greeting'', JStr ''Kick-off'']),
      (''actionItems'', JArr [JObj
         [(''id'', JStr ''a1''), (''description'', JStr ''Send notes''),
          (''assignee'', JStr ''Alice''), (''deadline'', JStr ''t2''),
          (''status'', JStr ''pending'')]]),
      (''moodGraph'', JObj
         [(''aspects'', JArr [JObj [(''mood'', JStr ''engagement''), (''score'', JNum 70)]]),
          (''timestamp'', JStr ''t0'')]),
      (''timeline'', JArr [JObj
         [(''startTime'', JStr ''t0''), (''endTime'', JStr ''t1''),
          (''topic'', JStr ''Opening''), (''speaker'', JStr ''Alice'')]]),
      (''participantEngagement'', JArr [JObj
         [(''participantId'', JStr ''Alice''), (''speakingTime'', JNum 5),
          (''interventionCount'', JNum 1), (''engagementScore'', JNum (9 / 10))]]),
      (''sentimentOverTime'', JObj
         [(''overallSentiment'', JNum (1 / 2)),
          (''sentimentPoints'', JArr [JObj
             [(''timestamp'', JStr ''t0''), (''sentiment'', JNum (1 / 2))]])]),
      (''questionTracker'', JArr [JObj
         [(''id'', JStr ''q1''), (''text'', JStr ''Ready?''), (''askedBy'', JStr ''Alice''),
          (''timestamp'', JStr ''t0''), (''answered'', JBool False)]]),
      (''resourceLinks'', JArr [JObj
         [(''id'', JStr ''r1''), (''url'', JStr ''https://example.com''),
          (''title'', JStr ''Agenda''), (''type'', JStr ''document''),
          (''mentionedAt'', JStr ''t0'')]]),
      (''meetingEfficiencyScore'', JNum 80)]"

definition sample_metadata_js :: "rat js" where
  "sample_metadata_js = JObj sample_metadata_props"

definition sample_answer :: string where
  \<open>sample_answer =
     ''{"title":"Weekly sync","shortDescription":"Status",'' @
     ''"description":"Alice opened the meeting.","takeaways":["Greeting","Kick-off"],'' @
     ''"actionItems":[{"id":"a1","description":"Send notes","assignee":"Alice",'' @
     ''"deadline":"t2","status":"pending"}],'' @
     ''"moodGraph":{"aspects":[{"mood":"engagement","score":70}],"timestamp":"t0"},'' @
     ''"timeline":[{"startTime":"t0","endTime":"t1","topic":"Opening","speaker":"Alice"}],'' @
     ''"participantEngagement":[{"participantId":"Alice","speakingTime":5,'' @
     ''"interventionCount":1,"engagementScore":0.9}],'' @
     ''"sentimentOverTime":{"overallSentiment":0.5,'' @
     ''"sentimentPoints":[{"timestamp":"t0","sentiment":0.5}]},'' @
     ''"questionTracker":[{"id":"q1","text":"Ready?","askedBy":"Alice","timestamp":"t0",'' @
     ''"answered":false}],'' @
     ''"resourceLinks":[{"id":"r1","url":"https://example.com","title":"Agenda",'' @
     ''"type":"document","mentionedAt":"t0"}],'' @
     ''"meetingEfficiencyScore":80}''\<close>

text \<open>The same answer with an \<^verbatim>\<open>id\<close> and an \<^verbatim>\<open>email\<close> of its own in front.\<close>

definition sample_answer_with_id :: string where
  \<open>sample_answer_with_id =
     ''{"id":"other","email":"x@y.org",'' @ tl sample_answer\<close>

definition sample_metadata_js_with_id :: "rat js" where
  "sample_metadata_js_with_id =
     JObj ((''id'', JStr ''other'') # (''email'', JStr ''x@y.org'') # sample_metadata_props)"

definition sample_metadata :: "rat meeting_metadata" where
  "sample_metadata =
     \<lparr>md_title = ''Weekly sync'',
      md_shortDescription = ''Status'',
      md_description = ''Alice opened the meeting.'',
      md_takeaways = [''Greeting'', ''Kick-off''],
      md_actionItems =
        [\<lparr>act_id = ''a1'', act_description = ''Send notes'', act_assignee = ''Alice'',
          act_deadline = ''t2'', act_status = ''pending''\<rparr>],
      md_moodGraph =
        \<lparr>mg_aspects = [\<lparr>asp_mood = ''engagement'', asp_score = 70\<rparr>], mg_timestamp = ''t0''\<rparr>,
      md_timeline =
        [\<lparr>tl_startTime = ''t0'', tl_endTime = ''t1'', tl_topic = ''Opening'',
          tl_speaker = ''Alice''\<rparr>],
      md_participantEngagement =
        [\<lparr>pe_participantId = ''Alice'', pe_speakingTime = 5, pe_interventionCount = 1,
          pe_engagementScore = 9 / 10\<rparr>],
      md_sentimentOverTime =
        \<lparr>sot_overallSentiment = 1 / 2,
         sot_sentimentPoints = [\<lparr>sp_timestamp = ''t0'', sp_sentiment = 1 / 2\<rparr>]\<rparr>,
      md_questionTracker =
        [\<lparr>q_id = ''q1'', q_text = ''Ready?'', q_askedBy = ''Alice'', q_timestamp = ''t0'',
          q_answered = False\<rparr>],
      md_resourceLinks =
        [\<lparr>rl_id = ''r1'', rl_url = ''https://example.com'', rl_title = ''Agenda'',
          rl_type = ''document'', rl_mentionedAt = ''t0''\<rparr>],
      md_meetingEfficiencyScore = 80\<rparr>"

definition sample_request_data :: request where
  "sample_request_data =
     \<lparr>req_id = ''m1'', req_email = ''a@b.com'', req_startTime = ''t0'', req_endTime = ''t1'',
      req_participants = [''Alice''],
      req_transcript = [\<lparr>tb_personName = ''Alice'', tb_timestamp = ''t0'', tb_text = ''hello''\<rparr>]\<rparr>"

definition sample_isEmail :: "string \<Rightarrow> bool" where
  "sample_isEmail s =
     (let local_part = takeWhile (\<lambda>c. c \<noteq> CHR ''@'') s;
          rest = dropWhile (\<lambda>c. c \<noteq> CHR ''@'') s
      in local_part \<noteq> [] \<and> rest \<noteq> [] \<and> CHR ''.'' \<in> set (tl rest) \<and> CHR ''@'' \<notin> set (tl rest))"

definition sample_JSON_parse :: "string \<Rightarrow> rat js option" where
  "sample_JSON_parse s =
     (if s = sample_answer then Some sample_metadata_js
      else if s = sample_answer_with_id then Some sample_metadata_js_with_id
      else if s = ''{}'' then Some (JObj [])
      else None)"

definition sample_fetch :: "bool \<Rightarrow> bool \<Rightarrow> bool \<Rightarrow> rat fetch_request \<Rightarrow> js_error + rat fetch_response" where
  "sample_fetch store_ok sign_ok upload_ok req =
     (if rq_url req = JStr ''https://api.test/meeting''
        then Inr \<lparr>rs_ok = store_ok, rs_json = Inr JNull\<rparr>
      else if rq_url req = JStr ''https://api.test/signed-url/presentation-m1.pptx''
        then Inr \<lparr>rs_ok = sign_ok, rs_json = Inr (JObj [(''url'', JStr ''https://bucket.test/put'')])\<rparr>
      else if rq_url req = JStr ''https://bucket.test/put''
        then Inr \<lparr>rs_ok = upload_ok, rs_json = Inr JNull\<rparr>
      else Inl TypeError)"

text \<open>Variants of the sample request: without an email, with a malformed email, and with
  other times and participants.\<close>

definition sample_request_no_email :: "rat WebhookRequest" where
  "sample_request_no_email = \<lparr>body = JObj
     [(''id'', JStr ''m1''),
      (''startTime'', JStr ''t0''),
      (''endTime'', JStr ''t1''),
      (''participants'', JArr [JStr ''Alice'']),
      (''transcript'', JArr [JObj
         [(''personName'', JStr ''Alice''), (''timestamp'', JStr ''t0''),
          (''text'', JStr ''hello'')]])]\<rparr>"

definition sample_request_bad_email :: "rat WebhookRequest" where
  "sample_request_bad_email = \<lparr>body = JObj
     [(''id'', JStr ''m1''),
      (''email'', JStr ''alice-at-b.com''),
      (''startTime'', JStr ''t0''),
      (''endTime'', JStr ''t1''),
      (''participants'', JArr [JStr ''Alice'']),
      (''transcript'', JArr [JObj
         [(''personName'', JStr ''Alice''), (''timestamp'', JStr ''t0''),
          (''text'', JStr ''hello'')]])]\<rparr>"

definition sample_request_other_times :: "rat WebhookRequest" where
  "sample_request_other_times = \<lparr>body = JObj
     [(''id'', JStr ''m1''),
      (''email'', JStr ''a@b.com''),
      (''startTime'', JStr ''t5''),
      (''endTime'', JStr ''t9''),
      (''participants'', JArr [JStr ''Bob'', JStr ''Carol'']),
      (''transcript'', JArr [JObj
         [(''personName'', JStr ''Alice''), (''timestamp'', JStr ''t0''),
          (''text'', JStr ''hello'')]])]\<rparr>"

definition sample_request_data_other_times :: request where
  "sample_request_data_other_times =
     \<lparr>req_id = ''m1'', req_email = ''a@b.com'', req_startTime = ''t5'', req_endTime = ''t9'',
      req_participants = [''Bob'', ''Carol''],
      req_transcript = [\<lparr>tb_personName = ''Alice'', tb_timestamp = ''t0'', tb_text = ''hello''\<rparr>]\<rparr>"

definition sample_env :: "string \<Rightarrow> bool \<Rightarrow> bool \<Rightarrow> bool \<Rightarrow> rat env" where
  "sample_env answer store_ok sign_ok upload_ok =
     \<lparr>BACKEND_API_URL = Some ''https://api.test'',
      isEmail = sample_isEmail,
      ask = (\<lambda>chatbot profile prompt options. Inr answer),
      JSON_parse = sample_JSON_parse,
      fetch = sample_fetch store_ok sign_ok upload_ok\<rparr>"

section \<open>The stages of a run\<close>

text \<open>What validation results are made of.\<close>

lemma both_Inr_iff: "both a b = Inr c \<longleftrightarrow> (\<exists>x y. a = Inr x \<and> b = Inr y \<and> c = (x, y))"
  by (cases a; cases b) auto

lemma map_result_Inr_iff: "map_result f r = Inr y \<longleftrightarrow> (\<exists>x. r = Inr x \<and> y = f x)"
  by (cases r) (auto simp: map_result_def)

lemma isl_both: "isl (both a b) = (isl a \<or> isl b)"
  by (cases a; cases b) auto

lemma isl_map_result: "isl (map_result f r) = isl r"
  by (cases r) (auto simp: map_result_def)

text \<open>The request for the upload destination is always sent; only its answer varies.\<close>

lemma presigned_trace:
  "snd (getPresignedUploadUrl env n) = [Fetch (signed_url_request env n)]"
  by (simp add: getPresignedUploadUrl_def Let_def)

lemma presigned_not_ok:
  "fetch env (signed_url_request env n) = Inr resp \<Longrightarrow> \<not> rs_ok resp \<Longrightarrow>
   fst (getPresignedUploadUrl env n) = Inl (Error ''Failed to get pre-signed upload URL'')"
  by (simp add: getPresignedUploadUrl_def Let_def)

lemma presigned_ok:
  "fetch env (signed_url_request env n) = Inr resp \<Longrightarrow> rs_ok resp \<Longrightarrow>
   rs_json resp = Inr (JObj kvs) \<Longrightarrow>
   fst (getPresignedUploadUrl env n) = Inr (get_prop kvs ''url'')"
  by (simp add: getPresignedUploadUrl_def Let_def get_member_def)

text \<open>One lemma per place where a run can end, each with the whole trace of the run.\<close>

lemma run_invalid_request:
  "safeParse (requestSchema (isEmail env)) (body request) = Inl e \<Longrightarrow>
   handleSummary env request =
     (Returned \<lparr>success = False, error = Message ''Invalid request''\<rparr>, [])"
  by (simp add: handleSummary_def)

lemma run_ask_rejects:
  "safeParse (requestSchema (isEmail env)) (body request) = Inr r \<Longrightarrow>
   chatbot_answer env r = Inl e \<Longrightarrow>
   handleSummary env request = (Threw e, [ask_event r])"
  by (simp add: handleSummary_def Let_def chatbot_answer_def ask_event_def)

lemma run_parse_throws:
  "safeParse (requestSchema (isEmail env)) (body request) = Inr r \<Longrightarrow>
   chatbot_answer env r = Inr answer \<Longrightarrow>
   JSON_parse env answer = None \<Longrightarrow>
   handleSummary env request = (Threw SyntaxError, [ask_event r])"
  by (simp add: handleSummary_def Let_def chatbot_answer_def ask_event_def)

lemma run_validation_fails:
  "safeParse (requestSchema (isEmail env)) (body request) = Inr r \<Longrightarrow>
   chatbot_answer env r = Inr answer \<Longrightarrow>
   JSON_parse env answer = Some parsed \<Longrightarrow>
   safeParse insertMeetingMetadataSchema parsed = Inl err \<Longrightarrow>
   handleSummary env request =
     (Returned \<lparr>success = False, error = ValidationError err\<rparr>, [ask_event r])"
  by (simp add: handleSummary_def Let_def chatbot_answer_def ask_event_def)

lemma run_store_rejects:
  "safeParse (requestSchema (isEmail env)) (body request) = Inr r \<Longrightarrow>
   chatbot_answer env r = Inr answer \<Longrightarrow>
   JSON_parse env answer = Some parsed \<Longrightarrow>
   safeParse insertMeetingMetadataSchema parsed = Inr data \<Longrightarrow>
   fetch env (store_request env r data) = Inl e \<Longrightarrow>
   handleSummary env request = (Threw e, [ask_event r, Fetch (store_request env r data)])"
  by (simp add: handleSummary_def Let_def chatbot_answer_def ask_event_def store_request_def)

lemma run_store_fails:
  "safeParse (requestSchema (isEmail env)) (body request) = Inr r \<Longrightarrow>
   chatbot_answer env r = Inr answer \<Longrightarrow>
   JSON_parse env answer = Some parsed \<Longrightarrow>
   safeParse insertMeetingMetadataSchema parsed = Inr data \<Longrightarrow>
   fetch env (store_request env r data) = Inr res \<Longrightarrow>
   \<not> rs_ok res \<Longrightarrow>
   handleSummary env request =
     (Returned \<lparr>success = False, error = Message ''Failed to update meeting metadata''\<rparr>,
      [ask_event r, Fetch (store_request env r data)])"
  by (simp add: handleSummary_def Let_def chatbot_answer_def ask_event_def store_request_def)

lemma run_presign_throws:
  "safeParse (requestSchema (isEmail env)) (body request) = Inr r \<Longrightarrow>
   chatbot_answer env r = Inr answer \<Longrightarrow>
   JSON_parse env answer = Some parsed \<Longrightarrow>
   safeParse insertMeetingMetadataSchema parsed = Inr data \<Longrightarrow>
   fetch env (store_request env r data) = Inr res \<Longrightarrow>
   rs_ok res \<Longrightarrow>
   fst (getPresignedUploadUrl env (artifact_name r)) = Inl e \<Longrightarrow>
   handleSummary env request =
     (Threw e,
      [ask_event r, Fetch (store_request env r data),
       Presentation (generatePresentation data (req_id r)),
       Fetch (signed_url_request env (artifact_name r))])"
  using presigned_trace [of env "artifact_name r"]
  by (simp add: handleSummary_def Let_def chatbot_answer_def ask_event_def store_request_def
      artifact_name_def case_prod_beta)

lemma run_upload_rejects:
  "safeParse (requestSchema (isEmail env)) (body request) = Inr r \<Longrightarrow>
   chatbot_answer env r = Inr answer \<Longrightarrow>
   JSON_parse env answer = Some parsed \<Longrightarrow>
   safeParse insertMeetingMetadataSchema parsed = Inr data \<Longrightarrow>
   fetch env (store_request env r data) = Inr res \<Longrightarrow>
   rs_ok res \<Longrightarrow>
   fst (getPresignedUploadUrl env (artifact_name r)) = Inr uploadUrl \<Longrightarrow>
   fetch env (upload_request uploadUrl (generatePresentation data (req_id r))) = Inl e \<Longrightarrow>
   handleSummary env request =
     (Threw e,
      [ask_event r, Fetch (store_request env r data),
       Presentation (generatePresentation data (req_id r)),
       Fetch (signed_url_request env (artifact_name r)),
       Fetch (upload_request uploadUrl (generatePresentation data (req_id r)))])"
  using presigned_trace [of env "artifact_name r"]
  by (simp add: handleSummary_def Let_def chatbot_answer_def ask_event_def store_request_def
      artifact_name_def case_prod_beta)

lemma run_upload_answers:
  "safeParse (requestSchema (isEmail env)) (body request) = Inr r \<Longrightarrow>
   chatbot_answer env r = Inr answer \<Longrightarrow>
   JSON_parse env answer = Some parsed \<Longrightarrow>
   safeParse insertMeetingMetadataSchema parsed = Inr data \<Longrightarrow>
   fetch env (store_request env r data) = Inr res \<Longrightarrow>
   rs_ok res \<Longrightarrow>
   fst (getPresignedUploadUrl env (artifact_name r)) = Inr uploadUrl \<Longrightarrow>
   fetch env (upload_request uploadUrl (generatePresentation data (req_id r))) = Inr uploadRes \<Longrightarrow>
   handleSummary env request =
     (Returned (if rs_ok uploadRes then \<lparr>success = True, error = NoError\<rparr>
                else \<lparr>success = False, error = Message ''Failed to upload presentation''\<rparr>),
      [ask_event r, Fetch (store_request env r data),
       Presentation (generatePresentation data (req_id r)),
       Fetch (signed_url_request env (artifact_name r)),
       Fetch (upload_request uploadUrl (generatePresentation data (req_id r)))])"
  using presigned_trace [of env "artifact_name r"]
  by (simp add: handleSummary_def Let_def chatbot_answer_def ask_event_def store_request_def
      artifact_name_def case_prod_beta)

text \<open>Which events of a run are calls of the metadata store.\<close>

lemma store_call_ask [simp]: "\<not> is_store_call env (ask_event r)"
  by (simp add: is_store_call_def ask_event_def)

lemma store_call_presentation [simp]: "\<not> is_store_call env (Presentation b)"
  by (simp add: is_store_call_def)

lemma store_call_store [simp]: "is_store_call env (Fetch (store_request env r data))"
  by (simp add: is_store_call_def store_request_def meeting_request_def)

lemma store_call_signed_url [simp]: "\<not> is_store_call env (Fetch (signed_url_request env n))"
  by (simp add: is_store_call_def signed_url_request_def)

section \<open>The sample run, evaluated\<close>

lemma sample_request_parses:
  "safeParse (requestSchema sample_isEmail) (body sample_request) = Inr sample_request_data"
  by code_simp

lemma sample_metadata_parses:
  "safeParse insertMeetingMetadataSchema sample_metadata_js = Inr sample_metadata"
  by code_simp

lemma sample_env_request:
  "safeParse (requestSchema (isEmail (sample_env a s g u))) (body sample_request) =
     Inr sample_request_data"
  using sample_request_parses by (simp add: sample_env_def)

lemma sample_env_answer: "chatbot_answer (sample_env a s g u) r = Inr a"
  by (simp add: chatbot_answer_def sample_env_def)

lemma sample_env_parse_metadata:
  "JSON_parse (sample_env a s g u) sample_answer = Some sample_metadata_js"
  by (simp add: sample_env_def sample_JSON_parse_def)

lemma sample_env_parse_with_id:
  "JSON_parse (sample_env a s g u) sample_answer_with_id = Some sample_metadata_js_with_id"
  by (simp add: sample_env_def sample_JSON_parse_def sample_answer_with_id_def
      sample_answer_def)

lemma sample_env_parse_empty_object: "JSON_parse (sample_env a s g u) ''{}'' = Some (JObj [])"
  by (simp add: sample_env_def sample_JSON_parse_def sample_answer_with_id_def
      sample_answer_def)

lemma sample_env_parse_other: "JSON_parse (sample_env a s g u) ''not json'' = None"
  by (simp add: sample_env_def sample_JSON_parse_def sample_answer_with_id_def
      sample_answer_def)

lemma sample_env_store:
  "fetch (sample_env a s g u) (store_request (sample_env a s g u) sample_request_data d) =
     Inr \<lparr>rs_ok = s, rs_json = Inr JNull\<rparr>"
  by (simp add: sample_env_def sample_fetch_def store_request_def meeting_request_def
      env_string_def)

lemma sample_env_signed_url:
  "fetch (sample_env a s g u)
     (signed_url_request (sample_env a s g u) (artifact_name sample_request_data)) =
     Inr \<lparr>rs_ok = g, rs_json = Inr (JObj [(''url'', JStr ''https://bucket.test/put'')])\<rparr>"
  by (simp add: sample_env_def sample_fetch_def signed_url_request_def artifact_name_def
      sample_request_data_def env_string_def)

lemma sample_env_presigned:
  "fst (getPresignedUploadUrl (sample_env a s True u) (artifact_name sample_request_data)) =
     Inr (JStr ''https://bucket.test/put'')"
  using presigned_ok [OF sample_env_signed_url [of a s True u]]
  by (simp add: get_prop_def)

lemma sample_env_upload:
  "fetch (sample_env a s g u) (upload_request (JStr ''https://bucket.test/put'') b) =
     Inr \<lparr>rs_ok = u, rs_json = Inr JNull\<rparr>"
  by (simp add: sample_env_def sample_fetch_def upload_request_def)

section \<open>Properties of the handler\<close>

text \<open>
  C1 (as amended). When \<^verbatim>\<open>JSON.parse\<close> throws on the chatbot's answer, nothing catches
  the SyntaxError: the handler does not return a result, it throws. The only effect of
  the run is the call of the chatbot, so the metadata store is never called.
\<close>

theorem handleSummary_invalid_JSON_throws:
  assumes "safeParse (requestSchema (isEmail env)) (body request) = Inr r"
    and "chatbot_answer env r = Inr answer"
    and "JSON_parse env answer = None"
  shows "handleSummary env request = (Threw SyntaxError, [ask_event r]) \<and>
         store_calls env (snd (handleSummary env request)) = 0"
  using run_parse_throws [OF assms] by (simp add: store_calls_def)

theorem handleSummary_invalid_JSON_throws_witness:
  "safeParse (requestSchema (isEmail (sample_env ''not json'' True True True)))
     (body sample_request) = Inr sample_request_data \<and>
   chatbot_answer (sample_env ''not json'' True True True) sample_request_data =
     Inr ''not json'' \<and>
   JSON_parse (sample_env ''not json'' True True True) ''not json'' = None \<and>
   handleSummary (sample_env ''not json'' True True True) sample_request =
     (Threw SyntaxError, [ask_event sample_request_data]) \<and>
   store_calls (sample_env ''not json'' True True True)
     (snd (handleSummary (sample_env ''not json'' True True True) sample_request)) = 0"
proof -
  have request: "safeParse (requestSchema (isEmail (sample_env ''not json'' True True True)))
      (body sample_request) = Inr sample_request_data"
    by (rule sample_env_request)
  have answer: "chatbot_answer (sample_env ''not json'' True True True) sample_request_data =
      Inr ''not json''"
    by (rule sample_env_answer)
  have parse: "JSON_parse (sample_env ''not json'' True True True) ''not json'' = None"
    by (rule sample_env_parse_other)
  from handleSummary_invalid_JSON_throws [OF request answer parse] request answer parse
  show ?thesis by blast
qed

text \<open>
  C1 as stated fails: on the sample request, with a chatbot answering \<^verbatim>\<open>not json\<close>, the
  handler returns no \<^verbatim>\<open>{success: false}\<close> object but throws the SyntaxError.
\<close>

theorem handleSummary_invalid_JSON_counterexample:
  "JSON_parse (sample_env ''not json'' True True True) ''not json'' = None \<and>
   chatbot_answer (sample_env ''not json'' True True True) sample_request_data =
     Inr ''not json'' \<and>
   fst (handleSummary (sample_env ''not json'' True True True) sample_request) =
     Threw SyntaxError"
proof -
  have request: "safeParse (requestSchema (isEmail (sample_env ''not json'' True True True)))
      (body sample_request) = Inr sample_request_data"
    by (rule sample_env_request)
  have answer: "chatbot_answer (sample_env ''not json'' True True True) sample_request_data =
      Inr ''not json''"
    by (rule sample_env_answer)
  have parse: "JSON_parse (sample_env ''not json'' True True True) ''not json'' = None"
    by (rule sample_env_parse_other)
  from run_parse_throws [OF request answer parse] answer parse
  show ?thesis by simp
qed

text \<open>
  C5. When the metadata store answers the upsert with a non-success status, the handler
  returns \<^verbatim>\<open>{success: false, error: "Failed to update meeting metadata"}\<close> and the run
  consists of the chatbot call and the upsert only: no presentation is generated, no
  signed URL is requested and nothing is uploaded.
\<close>

theorem handleSummary_store_failure:
  assumes "safeParse (requestSchema (isEmail env)) (body request) = Inr r"
    and "chatbot_answer env r = Inr answer"
    and "JSON_parse env answer = Some parsed"
    and "safeParse insertMeetingMetadataSchema parsed = Inr data"
    and "fetch env (store_request env r data) = Inr res"
    and "\<not> rs_ok res"
  shows "handleSummary env request =
           (Returned \<lparr>success = False, error = Message ''Failed to update meeting metadata''\<rparr>,
            [ask_event r, Fetch (store_request env r data)])"
  using run_store_fails [OF assms] .

theorem handleSummary_store_failure_witness:
  "safeParse (requestSchema (isEmail (sample_env sample_answer False True True)))
     (body sample_request) = Inr sample_request_data \<and>
   chatbot_answer (sample_env sample_answer False True True) sample_request_data =
     Inr sample_answer \<and>
   JSON_parse (sample_env sample_answer False True True) sample_answer =
     Some sample_metadata_js \<and>
   safeParse insertMeetingMetadataSchema sample_metadata_js = Inr sample_metadata \<and>
   fetch (sample_env sample_answer False True True)
     (store_request (sample_env sample_answer False True True) sample_request_data
        sample_metadata) = Inr \<lparr>rs_ok = False, rs_json = Inr JNull\<rparr> \<and>
   \<not> rs_ok \<lparr>rs_ok = False, rs_json = Inr (JNull :: rat js)\<rparr> \<and>
   handleSummary (sample_env sample_answer False True True) sample_request =
     (Returned \<lparr>success = False, error = Message ''Failed to update meeting metadata''\<rparr>,
      [ask_event sample_request_data,
       Fetch (store_request (sample_env sample_answer False True True) sample_request_data
                sample_metadata)])"
proof -
  let ?env = "sample_env sample_answer False True True"
  have request: "safeParse (requestSchema (isEmail ?env)) (body sample_request) =
      Inr sample_request_data"
    by (rule sample_env_request)
  have answer: "chatbot_answer ?env sample_request_data = Inr sample_answer"
    by (rule sample_env_answer)
  have parse: "JSON_parse ?env sample_answer = Some sample_metadata_js"
    by (rule sample_env_parse_metadata)
  have store: "fetch ?env (store_request ?env sample_request_data sample_metadata) =
      Inr \<lparr>rs_ok = False, rs_json = Inr JNull\<rparr>"
    by (rule sample_env_store)
  have refused: "\<not> rs_ok \<lparr>rs_ok = False, rs_json = Inr (JNull :: rat js)\<rparr>"
    by simp
  from handleSummary_store_failure [OF request answer parse sample_metadata_parses store refused]
    request answer parse sample_metadata_parses store refused
  show ?thesis by blast
qed

text \<open>
  C7. When the request validates, the chatbot's answer parses and passes the metadata
  schema, the upsert succeeds, the signed URL is obtained and the upload succeeds, the
  handler returns exactly \<^verbatim>\<open>{success: true, error: null}\<close>. The witness is the run of
  the end-to-end scenario.
\<close>

theorem handleSummary_success:
  assumes "safeParse (requestSchema (isEmail env)) (body request) = Inr r"
    and "chatbot_answer env r = Inr answer"
    and "JSON_parse env answer = Some parsed"
    and "safeParse insertMeetingMetadataSchema parsed = Inr data"
    and "fetch env (store_request env r data) = Inr res"
    and "rs_ok res"
    and "fst (getPresignedUploadUrl env (artifact_name r)) = Inr uploadUrl"
    and "fetch env (upload_request uploadUrl (generatePresentation data (req_id r))) =
           Inr uploadRes"
    and "rs_ok uploadRes"
  shows "fst (handleSummary env request) = Returned \<lparr>success = True, error = NoError\<rparr>"
  using run_upload_answers [OF assms(1-8)] assms(9) by simp

theorem handleSummary_success_witness:
  "safeParse (requestSchema (isEmail (sample_env sample_answer True True True)))
     (body sample_request) = Inr sample_request_data \<and>
   chatbot_answer (sample_env sample_answer True True True) sample_request_data =
     Inr sample_answer \<and>
   JSON_parse (sample_env sample_answer True True True) sample_answer =
     Some sample_metadata_js \<and>
   safeParse insertMeetingMetadataSchema sample_metadata_js = Inr sample_metadata \<and>
   fetch (sample_env sample_answer True True True)
     (store_request (sample_env sample_answer True True True) sample_request_data
        sample_metadata) = Inr \<lparr>rs_ok = True, rs_json = Inr JNull\<rparr> \<and>
   fst (getPresignedUploadUrl (sample_env sample_answer True True True)
          (artifact_name sample_request_data)) = Inr (JStr ''https://bucket.test/put'') \<and>
   fetch (sample_env sample_answer True True True)
     (upload_request (JStr ''https://bucket.test/put'')
        (generatePresentation sample_metadata (req_id sample_request_data))) =
     Inr \<lparr>rs_ok = True, rs_json = Inr JNull\<rparr> \<and>
   fst (handleSummary (sample_env sample_answer True True True) sample_request) =
     Returned \<lparr>success = True, error = NoError\<rparr>"
proof -
  let ?env = "sample_env sample_answer True True True"
  have request: "safeParse (requestSchema (isEmail ?env)) (body sample_request) =
      Inr sample_request_data"
    by (rule sample_env_request)
  have answer: "chatbot_answer ?env sample_request_data = Inr sample_answer"
    by (rule sample_env_answer)
  have parse: "JSON_parse ?env sample_answer = Some sample_metadata_js"
    by (rule sample_env_parse_metadata)
  have store: "fetch ?env (store_request ?env sample_request_data sample_metadata) =
      Inr \<lparr>rs_ok = True, rs_json = Inr JNull\<rparr>"
    by (rule sample_env_store)
  have stored: "rs_ok \<lparr>rs_ok = True, rs_json = Inr (JNull :: rat js)\<rparr>"
    by simp
  have url: "fst (getPresignedUploadUrl ?env (artifact_name sample_request_data)) =
      Inr (JStr ''https://bucket.test/put'')"
    by (rule sample_env_presigned)
  have upload: "fetch ?env (upload_request (JStr ''https://bucket.test/put'')
      (generatePresentation sample_metadata (req_id sample_request_data))) =
      Inr \<lparr>rs_ok = True, rs_json = Inr JNull\<rparr>"
    by (rule sample_env_upload)
  from handleSummary_success
    [OF request answer parse sample_metadata_parses store stored url upload stored]
    request answer parse sample_metadata_parses store url upload
  show ?thesis by blast
qed

text \<open>
  C3 (as amended). After a successful upsert, the two failures of the upload stage end
  differently. When the upload itself is answered with a non-success status, the handler
  returns \<^verbatim>\<open>{success: false, error: "Failed to upload presentation"}\<close>. When the request
  for the signed URL is answered with a non-success status, \<^verbatim>\<open>getPresignedUploadUrl\<close>
  throws its own error and the handler throws it on. In both cases the metadata store has
  been called exactly once before.
\<close>

theorem handleSummary_upload_stage_failure:
  assumes "safeParse (requestSchema (isEmail env)) (body request) = Inr r"
    and "chatbot_answer env r = Inr answer"
    and "JSON_parse env answer = Some parsed"
    and "safeParse insertMeetingMetadataSchema parsed = Inr data"
    and "fetch env (store_request env r data) = Inr res"
    and "rs_ok res"
  shows "(fetch env (signed_url_request env (artifact_name r)) = Inr resp \<and> \<not> rs_ok resp \<longrightarrow>
            handleSummary env request =
              (Threw (Error ''Failed to get pre-signed upload URL''),
               [ask_event r, Fetch (store_request env r data),
                Presentation (generatePresentation data (req_id r)),
                Fetch (signed_url_request env (artifact_name r))])) \<and>
         (fst (getPresignedUploadUrl env (artifact_name r)) = Inr uploadUrl \<and>
          fetch env (upload_request uploadUrl (generatePresentation data (req_id r))) =
            Inr uploadRes \<and> \<not> rs_ok uploadRes \<longrightarrow>
            handleSummary env request =
              (Returned \<lparr>success = False, error = Message ''Failed to upload presentation''\<rparr>,
               [ask_event r, Fetch (store_request env r data),
                Presentation (generatePresentation data (req_id r)),
                Fetch (signed_url_request env (artifact_name r))] @
               [Fetch (upload_request uploadUrl (generatePresentation data (req_id r)))])) \<and>
         store_calls env
           [ask_event r, Fetch (store_request env r data),
            Presentation (generatePresentation data (req_id r)),
            Fetch (signed_url_request env (artifact_name r))] = 1"
proof (intro conjI impI)
  assume "fetch env (signed_url_request env (artifact_name r)) = Inr resp \<and> \<not> rs_ok resp"
  then have "fst (getPresignedUploadUrl env (artifact_name r)) =
      Inl (Error ''Failed to get pre-signed upload URL'')"
    by (simp add: presigned_not_ok)
  then show "handleSummary env request =
      (Threw (Error ''Failed to get pre-signed upload URL''),
       [ask_event r, Fetch (store_request env r data),
        Presentation (generatePresentation data (req_id r)),
        Fetch (signed_url_request env (artifact_name r))])"
    by (rule run_presign_throws [OF assms])
next
  assume a: "fst (getPresignedUploadUrl env (artifact_name r)) = Inr uploadUrl \<and>
    fetch env (upload_request uploadUrl (generatePresentation data (req_id r))) =
      Inr uploadRes \<and> \<not> rs_ok uploadRes"
  then have "fst (getPresignedUploadUrl env (artifact_name r)) = Inr uploadUrl"
    and "fetch env (upload_request uploadUrl (generatePresentation data (req_id r))) =
      Inr uploadRes"
    by simp_all
  from run_upload_answers [OF assms this] a
  show "handleSummary env request =
      (Returned \<lparr>success = False, error = Message ''Failed to upload presentation''\<rparr>,
       [ask_event r, Fetch (store_request env r data),
        Presentation (generatePresentation data (req_id r)),
        Fetch (signed_url_request env (artifact_name r))] @
       [Fetch (upload_request uploadUrl (generatePresentation data (req_id r)))])"
    by simp
next
  show "store_calls env
      [ask_event r, Fetch (store_request env r data),
       Presentation (generatePresentation data (req_id r)),
       Fetch (signed_url_request env (artifact_name r))] = 1"
    by (simp add: store_calls_def)
qed

theorem handleSummary_upload_stage_failure_witness:
  "(fetch (sample_env sample_answer True False True)
      (signed_url_request (sample_env sample_answer True False True)
         (artifact_name sample_request_data)) =
      Inr \<lparr>rs_ok = False, rs_json = Inr (JObj [(''url'', JStr ''https://bucket.test/put'')])\<rparr> \<and>
    fst (handleSummary (sample_env sample_answer True False True) sample_request) =
      Threw (Error ''Failed to get pre-signed upload URL'')) \<and>
   (fst (getPresignedUploadUrl (sample_env sample_answer True True False)
           (artifact_name sample_request_data)) = Inr (JStr ''https://bucket.test/put'') \<and>
    fetch (sample_env sample_answer True True False)
      (upload_request (JStr ''https://bucket.test/put'')
         (generatePresentation sample_metadata (req_id sample_request_data))) =
      Inr \<lparr>rs_ok = False, rs_json = Inr JNull\<rparr> \<and>
    fst (handleSummary (sample_env sample_answer True True False) sample_request) =
      Returned \<lparr>success = False, error = Message ''Failed to upload presentation''\<rparr> \<and>
    store_calls (sample_env sample_answer True True False)
      (butlast (snd (handleSummary (sample_env sample_answer True True False) sample_request)))
      = 1)"
proof -
  let ?refused = "sample_env sample_answer True False True"
  let ?dropped = "sample_env sample_answer True True False"
  have stored: "rs_ok \<lparr>rs_ok = True, rs_json = Inr (JNull :: rat js)\<rparr>"
    by simp
  have request1: "safeParse (requestSchema (isEmail ?refused)) (body sample_request) =
      Inr sample_request_data"
    by (rule sample_env_request)
  have answer1: "chatbot_answer ?refused sample_request_data = Inr sample_answer"
    by (rule sample_env_answer)
  have parse1: "JSON_parse ?refused sample_answer = Some sample_metadata_js"
    by (rule sample_env_parse_metadata)
  have store1: "fetch ?refused (store_request ?refused sample_request_data sample_metadata) =
      Inr \<lparr>rs_ok = True, rs_json = Inr JNull\<rparr>"
    by (rule sample_env_store)
  have sign: "fetch ?refused (signed_url_request ?refused (artifact_name sample_request_data)) =
      Inr \<lparr>rs_ok = False, rs_json = Inr (JObj [(''url'', JStr ''https://bucket.test/put'')])\<rparr>"
    by (rule sample_env_signed_url)
  have request2: "safeParse (requestSchema (isEmail ?dropped)) (body sample_request) =
      Inr sample_request_data"
    by (rule sample_env_request)
  have answer2: "chatbot_answer ?dropped sample_request_data = Inr sample_answer"
    by (rule sample_env_answer)
  have parse2: "JSON_parse ?dropped sample_answer = Some sample_metadata_js"
    by (rule sample_env_parse_metadata)
  have store2: "fetch ?dropped (store_request ?dropped sample_request_data sample_metadata) =
      Inr \<lparr>rs_ok = True, rs_json = Inr JNull\<rparr>"
    by (rule sample_env_store)
  have url: "fst (getPresignedUploadUrl ?dropped (artifact_name sample_request_data)) =
      Inr (JStr ''https://bucket.test/put'')"
    by (rule sample_env_presigned)
  have upload: "fetch ?dropped (upload_request (JStr ''https://bucket.test/put'')
      (generatePresentation sample_metadata (req_id sample_request_data))) =
      Inr \<lparr>rs_ok = False, rs_json = Inr JNull\<rparr>"
    by (rule sample_env_upload)
  from handleSummary_upload_stage_failure
    [OF request1 answer1 parse1 sample_metadata_parses store1 stored,
     where resp = "\<lparr>rs_ok = False,
       rs_json = Inr (JObj [(''url'', JStr ''https://bucket.test/put'')])\<rparr>"]
    sign
  have first: "fst (handleSummary ?refused sample_request) =
      Threw (Error ''Failed to get pre-signed upload URL'')"
    by simp
  from handleSummary_upload_stage_failure
    [OF request2 answer2 parse2 sample_metadata_parses store2 stored,
     where uploadUrl = "JStr ''https://bucket.test/put''"
       and uploadRes = "\<lparr>rs_ok = False, rs_json = Inr JNull\<rparr>"]
    url upload
  have second: "fst (handleSummary ?dropped sample_request) =
      Returned \<lparr>success = False, error = Message ''Failed to upload presentation''\<rparr> \<and>
    store_calls ?dropped (butlast (snd (handleSummary ?dropped sample_request))) = 1"
    by simp
  from first second sign url upload show ?thesis by blast
qed

text \<open>
  C3 as stated fails for the signed URL: in the sample run with a refusing signed-URL
  service the handler returns nothing, it throws.
\<close>

theorem handleSummary_upload_stage_counterexample:
  "fetch (sample_env sample_answer True False True)
      (signed_url_request (sample_env sample_answer True False True)
         (artifact_name sample_request_data)) =
      Inr \<lparr>rs_ok = False, rs_json = Inr (JObj [(''url'', JStr ''https://bucket.test/put'')])\<rparr> \<and>
   fst (handleSummary (sample_env sample_answer True False True) sample_request) =
      Threw (Error ''Failed to get pre-signed upload URL'')"
proof -
  let ?refused = "sample_env sample_answer True False True"
  have stored: "rs_ok \<lparr>rs_ok = True, rs_json = Inr (JNull :: rat js)\<rparr>"
    by simp
  have request: "safeParse (requestSchema (isEmail ?refused)) (body sample_request) =
      Inr sample_request_data"
    by (rule sample_env_request)
  have answer: "chatbot_answer ?refused sample_request_data = Inr sample_answer"
    by (rule sample_env_answer)
  have parse: "JSON_parse ?refused sample_answer = Some sample_metadata_js"
    by (rule sample_env_parse_metadata)
  have store: "fetch ?refused (store_request ?refused sample_request_data sample_metadata) =
      Inr \<lparr>rs_ok = True, rs_json = Inr JNull\<rparr>"
    by (rule sample_env_store)
  have sign: "fetch ?refused (signed_url_request ?refused (artifact_name sample_request_data)) =
      Inr \<lparr>rs_ok = False, rs_json = Inr (JObj [(''url'', JStr ''https://bucket.test/put'')])\<rparr>"
    by (rule sample_env_signed_url)
  have "fst (getPresignedUploadUrl ?refused (artifact_name sample_request_data)) =
      Inl (Error ''Failed to get pre-signed upload URL'')"
    using presigned_not_ok [OF sign] by simp
  from run_presign_throws [OF request answer parse sample_metadata_parses store stored this]
    sign
  show ?thesis by simp
qed

section \<open>Properties of validation and of what is persisted\<close>

lemma issues_of_both: "issues_of (both a b) = issues_of a @ issues_of b"
  by (cases a; cases b) (auto simp: issues_of_def)

lemma issues_of_map_result: "issues_of (map_result f r) = issues_of r"
  by (cases r) (auto simp: issues_of_def map_result_def)

lemma request_needs_email:
  "\<not> has_valid_email is_email v \<Longrightarrow> isl (safeParse (requestSchema is_email) v)"
  by (cases v)
     (auto simp: has_valid_email_def safeParse_def requestSchema_def z_object_def
        isl_map_result isl_both field_def email_check_def z_string_def split: js.splits)

lemma required_undefined:
  "z_string p JUndefined = Inl [Issue p Required]"
  "z_number p JUndefined = Inl [Issue p Required]"
  "z_array elem p JUndefined = Inl [Issue p Required]"
  "z_object shape p JUndefined = Inl [Issue p Required]"
  by (simp_all add: z_string_def z_number_def z_array_def z_object_def invalid_def)

lemma metadata_non_object:
  "\<forall>kvs. v \<noteq> JObj kvs \<Longrightarrow>
   safeParse insertMeetingMetadataSchema v = Inl (invalid [] v)"
  by (cases v) (auto simp: safeParse_def insertMeetingMetadataSchema_def z_object_def)

lemma issues_of_Inl: "issues_of (Inl e) = e"
  by (simp add: issues_of_def)

lemma z_object_JObj: "z_object shape p (JObj kvs) = shape p kvs"
  by (simp add: z_object_def)

lemma nested_undefined:
  "moodGraphSchema p JUndefined = Inl [Issue p Required]"
  "sentimentOverTimeSchema p JUndefined = Inl [Issue p Required]"
  by (simp_all add: moodGraphSchema_def sentimentOverTimeSchema_def required_undefined)

lemma metadata_needs_field:
  assumes "k \<in> set metadata_keys" and "map_of kvs k = None"
  shows "isl (safeParse insertMeetingMetadataSchema (JObj kvs)) \<and>
         Issue [Key k] Required \<in> set (issues_of (safeParse insertMeetingMetadataSchema (JObj kvs)))"
proof -
  from assms(2) have undef: "get_prop kvs k = JUndefined"
    by (simp add: get_prop_def)
  from assms(1) undef show ?thesis
    by (auto simp: safeParse_def insertMeetingMetadataSchema_def z_object_JObj metadata_keys_def
        isl_map_result isl_both issues_of_map_result issues_of_both field_def
        required_undefined nested_undefined issues_of_Inl)
qed

lemma metadata_lacking_field:
  assumes "k \<in> set metadata_keys" and "lacks_field v k"
  shows "\<exists>err. safeParse insertMeetingMetadataSchema v = Inl err \<and> err \<noteq> [] \<and>
           (case v of JObj kvs \<Rightarrow> Issue [Key k] Required \<in> set err | _ \<Rightarrow> err = invalid [] v)"
proof (cases "\<exists>kvs. v = JObj kvs")
  case True
  then obtain kvs where v: "v = JObj kvs" by blast
  with assms(2) have "map_of kvs k = None"
    by (simp add: lacks_field_def)
  from metadata_needs_field [OF assms(1) this]
  obtain err where "safeParse insertMeetingMetadataSchema (JObj kvs) = Inl err"
    and "Issue [Key k] Required \<in> set err"
    by (cases "safeParse insertMeetingMetadataSchema (JObj kvs)") (auto simp: issues_of_Inl)
  with v show ?thesis by auto
next
  case False
  then have "safeParse insertMeetingMetadataSchema v = Inl (invalid [] v)"
    by (simp add: metadata_non_object)
  with False show ?thesis
    by (cases v) (auto simp: invalid_def)
qed

text \<open>
  C2. When the chatbot's answer parses as JSON but the parsed value lacks a key of the
  metadata schema (or is not an object at all), \<^verbatim>\<open>safeParse\<close> fails with a non-empty list
  of issues, which names the missing key as required; the handler returns
  \<^verbatim>\<open>{success: false}\<close> with that validation error, and the metadata store is never
  called. The schema is the one with every field required.
\<close>

theorem handleSummary_missing_metadata_field:
  assumes "safeParse (requestSchema (isEmail env)) (body request) = Inr r"
    and "chatbot_answer env r = Inr answer"
    and "JSON_parse env answer = Some parsed"
    and "k \<in> set metadata_keys"
    and "lacks_field parsed k"
  shows "\<exists>err. safeParse insertMeetingMetadataSchema parsed = Inl err \<and> err \<noteq> [] \<and>
           (case parsed of JObj kvs \<Rightarrow> Issue [Key k] Required \<in> set err
            | _ \<Rightarrow> err = invalid [] parsed) \<and>
           handleSummary env request =
             (Returned \<lparr>success = False, error = ValidationError err\<rparr>, [ask_event r]) \<and>
           store_calls env (snd (handleSummary env request)) = 0"
proof -
  from metadata_lacking_field [OF assms(4,5)]
  obtain err where err: "safeParse insertMeetingMetadataSchema parsed = Inl err" "err \<noteq> []"
    "(case parsed of JObj kvs \<Rightarrow> Issue [Key k] Required \<in> set err | _ \<Rightarrow> err = invalid [] parsed)"
    by blast
  from run_validation_fails [OF assms(1-3) err(1)]
  have "handleSummary env request =
      (Returned \<lparr>success = False, error = ValidationError err\<rparr>, [ask_event r])" .
  moreover from this have "store_calls env (snd (handleSummary env request)) = 0"
    by (simp add: store_calls_def)
  ultimately show ?thesis using err by blast
qed

text \<open>
  C4. A body that fails the request schema, in particular one without an \<^verbatim>\<open>email\<close>
  or with an email the email test rejects, makes the handler return
  \<^verbatim>\<open>{success: false, error: "Invalid request"}\<close> with an empty trace: the chatbot is not
  asked and nothing is fetched.
\<close>

theorem handleSummary_invalid_request:
  assumes "isl (safeParse (requestSchema (isEmail env)) (body request)) \<or>
           \<not> has_valid_email (isEmail env) (body request)"
  shows "handleSummary env request =
           (Returned \<lparr>success = False, error = Message ''Invalid request''\<rparr>, [])"
proof -
  from assms have "isl (safeParse (requestSchema (isEmail env)) (body request))"
    using request_needs_email by blast
  then obtain e where "safeParse (requestSchema (isEmail env)) (body request) = Inl e"
    by (cases "safeParse (requestSchema (isEmail env)) (body request)") auto
  then show ?thesis by (rule run_invalid_request)
qed


text \<open>
  The schema of the second file is weaker at exactly this point: with every top-level
  field optional it accepts the empty object.
\<close>

lemma optional_schema_accepts_empty_object:
  "safeParse insertMeetingMetadataSchema_optional (JObj ([] :: (string \<times> rat js) list)) =
     Inr \<lparr>omd_title = None, omd_shortDescription = None, omd_description = None,
          omd_takeaways = None, omd_actionItems = None, omd_moodGraph = None,
          omd_timeline = None, omd_participantEngagement = None,
          omd_sentimentOverTime = None, omd_questionTracker = None,
          omd_resourceLinks = None, omd_meetingEfficiencyScore = None\<rparr>"
  by code_simp

text \<open>The body of the upsert.\<close>

lemma spread_metadata:
  "spread [(''id'', a), (''email'', b)] (props_of_metadata d) =
     (''id'', a) # (''email'', b) # props_of_metadata d"
  by (simp add: props_of_metadata_def)

lemma metadata_props_keys: "map fst (props_of_metadata d) = metadata_keys"
  by (simp add: props_of_metadata_def metadata_keys_def)

lemma metadata_reads_schema_keys:
  assumes "\<forall>k \<in> set metadata_keys. map_of kvs' k = map_of kvs k"
  shows "safeParse insertMeetingMetadataSchema (JObj kvs') =
         safeParse insertMeetingMetadataSchema (JObj kvs)"
proof -
  from assms have "\<forall>k \<in> set metadata_keys. get_prop kvs' k = get_prop kvs k"
    by (simp add: get_prop_def)
  then show ?thesis
    by (simp add: safeParse_def insertMeetingMetadataSchema_def z_object_JObj field_def
        metadata_keys_def)
qed

lemma run_persist_prefix:
  assumes "safeParse (requestSchema (isEmail env)) (body request) = Inr r"
    and "chatbot_answer env r = Inr answer"
    and "JSON_parse env answer = Some parsed"
    and "safeParse insertMeetingMetadataSchema parsed = Inr data"
  shows "\<exists>rest. snd (handleSummary env request) =
           ask_event r # Fetch (store_request env r data) # rest"
  using assms
  by (auto simp: handleSummary_def Let_def chatbot_answer_def ask_event_def store_request_def
      case_prod_beta split: sum.splits)

text \<open>What the upsert holds, field by field, and where each field comes from.\<close>

lemma z_string_Inr: "z_string p v = Inr s \<longleftrightarrow> v = JStr s"
  by (cases v) (auto simp: z_string_def)

lemma z_number_Inr: "z_number p v = Inr n \<longleftrightarrow> v = JNum n"
  by (cases v) (auto simp: z_number_def)

lemma z_boolean_Inr: "z_boolean p v = Inr b \<longleftrightarrow> v = JBool b"
  by (cases v) (auto simp: z_boolean_def)

lemma min_len_Inr: "min_len n z_string p v = Inr s \<longleftrightarrow> v = JStr s \<and> n \<le> length s"
  by (cases v) (auto simp: min_len_def z_string_def)

lemma z_enum_Inr: "z_enum options p v = Inr s \<longleftrightarrow> v = JStr s \<and> s \<in> set options"
  by (cases v) (auto simp: z_enum_def)

lemma z_object_Inr:
  "z_object shape p v = Inr d \<longleftrightarrow> (\<exists>kvs. v = JObj kvs \<and> shape p kvs = Inr d)"
  by (cases v) (auto simp: z_object_def)

lemma collect_Inr:
  "collect (r # rs) = Inr ds \<longleftrightarrow> (\<exists>d ds'. r = Inr d \<and> collect rs = Inr ds' \<and> ds = d # ds')"
  by (auto simp: map_result_Inr_iff both_Inr_iff)

lemma collect_written_back:
  assumes "\<And>q x d. elem q x = Inr d \<Longrightarrow> enc d = f x"
    and "collect (map (\<lambda>(i, x). elem (p @ [Index i]) x) (enumerate n xs)) = Inr ds"
  shows "map enc ds = map f xs"
  using assms(2)
proof (induction xs arbitrary: n ds)
  case Nil
  then show ?case by simp
next
  case (Cons x xs)
  from Cons.prems obtain d ds' where d: "elem (p @ [Index n]) x = Inr d"
    and rest: "collect (map (\<lambda>(i, x). elem (p @ [Index i]) x) (enumerate (Suc n) xs)) = Inr ds'"
    and ds: "ds = d # ds'"
    by (auto simp: collect_Inr simp del: collect.simps)
  from assms(1) [OF d] Cons.IH [OF rest] ds show ?case by simp
qed

lemma z_array_written_back:
  assumes "\<And>q x d. elem q x = Inr d \<Longrightarrow> enc d = f x"
    and "z_array elem p v = Inr ds"
  shows "JArr (map enc ds) = each f v"
proof (cases v)
  case (JArr xs)
  with assms(2) have "collect (map (\<lambda>(i, x). elem (p @ [Index i]) x) (enumerate 0 xs)) = Inr ds"
    by (simp add: z_array_def)
  from collect_written_back [of elem enc f, OF assms(1) this] JArr show ?thesis
    by (simp add: each_def)
qed (use assms(2) in \<open>simp_all add: z_array_def\<close>)

lemmas leaf_Inr = z_string_Inr z_number_Inr z_boolean_Inr min_len_Inr z_enum_Inr

lemma action_item_written_back:
  "actionItemSchema p v = Inr a \<Longrightarrow>
   js_of_action_item a =
     pick [''id'', ''description'', ''assignee'', ''deadline'', ''status''] v"
  by (auto simp: actionItemSchema_def z_object_Inr map_result_Inr_iff both_Inr_iff field_def
      leaf_Inr js_of_action_item_def pick_def)

lemma aspect_written_back:
  "aspectSchema p v = Inr a \<Longrightarrow> js_of_aspect a = pick [''mood'', ''score''] v"
  by (auto simp: aspectSchema_def z_object_Inr map_result_Inr_iff both_Inr_iff field_def
      leaf_Inr js_of_aspect_def pick_def)

lemma timeline_event_written_back:
  "timelineEventSchema p v = Inr a \<Longrightarrow>
   js_of_timeline_event a = pick [''startTime'', ''endTime'', ''topic'', ''speaker''] v"
  by (auto simp: timelineEventSchema_def z_object_Inr map_result_Inr_iff both_Inr_iff field_def
      leaf_Inr js_of_timeline_event_def pick_def)

lemma participant_engagement_written_back:
  "participantEngagementSchema p v = Inr a \<Longrightarrow>
   js_of_participant_engagement a =
     pick [''participantId'', ''speakingTime'', ''interventionCount'', ''engagementScore''] v"
  by (auto simp: participantEngagementSchema_def z_object_Inr map_result_Inr_iff both_Inr_iff
      field_def leaf_Inr js_of_participant_engagement_def pick_def)

lemma sentiment_point_written_back:
  "sentimentPointSchema p v = Inr a \<Longrightarrow>
   js_of_sentiment_point a = pick [''timestamp'', ''sentiment''] v"
  by (auto simp: sentimentPointSchema_def z_object_Inr map_result_Inr_iff both_Inr_iff field_def
      leaf_Inr js_of_sentiment_point_def pick_def)

lemma question_written_back:
  "questionSchema p v = Inr a \<Longrightarrow>
   js_of_question a = pick [''id'', ''text'', ''askedBy'', ''timestamp'', ''answered''] v"
  by (auto simp: questionSchema_def z_object_Inr map_result_Inr_iff both_Inr_iff field_def
      leaf_Inr js_of_question_def pick_def)

lemma resource_link_written_back:
  "resourceLinkSchema p v = Inr a \<Longrightarrow>
   js_of_resource_link a = pick [''id'', ''url'', ''title'', ''type'', ''mentionedAt''] v"
  by (auto simp: resourceLinkSchema_def z_object_Inr map_result_Inr_iff both_Inr_iff field_def
      leaf_Inr js_of_resource_link_def pick_def)

lemma string_written_back: "z_string p v = Inr s \<Longrightarrow> JStr s = v"
  by (simp add: z_string_Inr)

lemma mood_graph_written_back:
  assumes "moodGraphSchema p v = Inr g"
  shows "\<exists>m. v = JObj m \<and>
     js_of_mood_graph g = JObj
       [(''aspects'', each (pick [''mood'', ''score'']) (get_prop m ''aspects'')),
        (''timestamp'', get_prop m ''timestamp'')]"
proof -
  from assms obtain m where v: "v = JObj m"
    and a: "z_array aspectSchema (p @ [Key ''aspects'']) (get_prop m ''aspects'') =
      Inr (mg_aspects g)"
    and t: "get_prop m ''timestamp'' = JStr (mg_timestamp g)"
    by (auto simp: moodGraphSchema_def z_object_Inr map_result_Inr_iff both_Inr_iff field_def
        leaf_Inr)
  from z_array_written_back [of aspectSchema js_of_aspect, OF aspect_written_back a] v t
  show ?thesis by (simp add: js_of_mood_graph_def)
qed

lemma sentiment_over_time_written_back:
  assumes "sentimentOverTimeSchema p v = Inr g"
  shows "\<exists>m. v = JObj m \<and>
     js_of_sentiment_over_time g = JObj
       [(''overallSentiment'', get_prop m ''overallSentiment''),
        (''sentimentPoints'',
           each (pick [''timestamp'', ''sentiment'']) (get_prop m ''sentimentPoints''))]"
proof -
  from assms obtain m where v: "v = JObj m"
    and a: "z_array sentimentPointSchema (p @ [Key ''sentimentPoints''])
      (get_prop m ''sentimentPoints'') = Inr (sot_sentimentPoints g)"
    and t: "get_prop m ''overallSentiment'' = JNum (sot_overallSentiment g)"
    by (auto simp: sentimentOverTimeSchema_def z_object_Inr map_result_Inr_iff both_Inr_iff
        field_def leaf_Inr)
  from z_array_written_back [of sentimentPointSchema js_of_sentiment_point,
      OF sentiment_point_written_back a] v t
  show ?thesis by (simp add: js_of_sentiment_over_time_def)
qed


lemma strings_written_back:
  assumes "z_array z_string p v = Inr ss"
  shows "JArr (map JStr ss) = v"
proof -
  from z_array_written_back [of z_string JStr "\<lambda>x. x", OF string_written_back assms]
  have "JArr (map JStr ss) = each (\<lambda>x. x) v" .
  moreover from assms have "each (\<lambda>x. x) v = v"
    by (cases v) (simp_all add: each_def)
  ultimately show ?thesis by simp
qed

lemma metadata_fields:
  assumes "safeParse insertMeetingMetadataSchema (JObj kvs) = Inr data"
  shows "z_string [Key ''title''] (get_prop kvs ''title'') = Inr (md_title data)"
    and "z_string [Key ''shortDescription''] (get_prop kvs ''shortDescription'') =
           Inr (md_shortDescription data)"
    and "z_string [Key ''description''] (get_prop kvs ''description'') =
           Inr (md_description data)"
    and "z_array z_string [Key ''takeaways''] (get_prop kvs ''takeaways'') =
           Inr (md_takeaways data)"
    and "z_array actionItemSchema [Key ''actionItems''] (get_prop kvs ''actionItems'') =
           Inr (md_actionItems data)"
    and "moodGraphSchema [Key ''moodGraph''] (get_prop kvs ''moodGraph'') =
           Inr (md_moodGraph data)"
    and "z_array timelineEventSchema [Key ''timeline''] (get_prop kvs ''timeline'') =
           Inr (md_timeline data)"
    and "z_array participantEngagementSchema [Key ''participantEngagement'']
           (get_prop kvs ''participantEngagement'') = Inr (md_participantEngagement data)"
    and "sentimentOverTimeSchema [Key ''sentimentOverTime'']
           (get_prop kvs ''sentimentOverTime'') = Inr (md_sentimentOverTime data)"
    and "z_array questionSchema [Key ''questionTracker''] (get_prop kvs ''questionTracker'') =
           Inr (md_questionTracker data)"
    and "z_array resourceLinkSchema [Key ''resourceLinks''] (get_prop kvs ''resourceLinks'') =
           Inr (md_resourceLinks data)"
    and "z_number [Key ''meetingEfficiencyScore''] (get_prop kvs ''meetingEfficiencyScore'') =
           Inr (md_meetingEfficiencyScore data)"
  using assms
  by (auto simp: safeParse_def insertMeetingMetadataSchema_def z_object_JObj field_def
      map_result_Inr_iff both_Inr_iff)

lemma props_written_back:
  assumes "safeParse insertMeetingMetadataSchema (JObj kvs) = Inr data"
  shows "props_of_metadata data =
     tl (tl ([(''id'', JStr (req_id r)),
                (''email'', JStr (req_email r)),
                (''title'', get_prop kvs ''title''),
                (''shortDescription'', get_prop kvs ''shortDescription''),
                (''description'', get_prop kvs ''description''),
                (''takeaways'', get_prop kvs ''takeaways''),
                (''actionItems'',
                   each (pick [''id'', ''description'', ''assignee'', ''deadline'', ''status''])
                     (get_prop kvs ''actionItems'')),
                (''moodGraph'', JObj
                   [(''aspects'',
                       each (pick [''mood'', ''score''])
                         (prop_of (get_prop kvs ''moodGraph'') ''aspects'')),
                    (''timestamp'', prop_of (get_prop kvs ''moodGraph'') ''timestamp'')]),
                (''timeline'',
                   each (pick [''startTime'', ''endTime'', ''topic'', ''speaker''])
                     (get_prop kvs ''timeline'')),
                (''participantEngagement'',
                   each (pick [''participantId'', ''speakingTime'', ''interventionCount'',
                               ''engagementScore''])
                     (get_prop kvs ''participantEngagement'')),
                (''sentimentOverTime'', JObj
                   [(''overallSentiment'',
                       prop_of (get_prop kvs ''sentimentOverTime'') ''overallSentiment''),
                    (''sentimentPoints'',
                       each (pick [''timestamp'', ''sentiment''])
                         (prop_of (get_prop kvs ''sentimentOverTime'') ''sentimentPoints''))]),
                (''questionTracker'',
                   each (pick [''id'', ''text'', ''askedBy'', ''timestamp'', ''answered''])
                     (get_prop kvs ''questionTracker'')),
                (''resourceLinks'',
                   each (pick [''id'', ''url'', ''title'', ''type'', ''mentionedAt''])
                     (get_prop kvs ''resourceLinks'')),
                (''meetingEfficiencyScore'', get_prop kvs ''meetingEfficiencyScore'')]))"
proof -
  note f = metadata_fields [OF assms]
  from mood_graph_written_back [OF f(6)]
  have mood: "js_of_mood_graph (md_moodGraph data) = JObj
       [(''aspects'', each (pick [''mood'', ''score''])
           (prop_of (get_prop kvs ''moodGraph'') ''aspects'')),
        (''timestamp'', prop_of (get_prop kvs ''moodGraph'') ''timestamp'')]"
    by (auto simp: prop_of_def)
  from sentiment_over_time_written_back [OF f(9)]
  have sentiment: "js_of_sentiment_over_time (md_sentimentOverTime data) = JObj
       [(''overallSentiment'',
           prop_of (get_prop kvs ''sentimentOverTime'') ''overallSentiment''),
        (''sentimentPoints'', each (pick [''timestamp'', ''sentiment''])
           (prop_of (get_prop kvs ''sentimentOverTime'') ''sentimentPoints''))]"
    by (auto simp: prop_of_def)
  show ?thesis
    unfolding props_of_metadata_def mood sentiment
    using string_written_back [OF f(1)] string_written_back [OF f(2)]
      string_written_back [OF f(3)] strings_written_back [OF f(4)]
      z_array_written_back [of actionItemSchema js_of_action_item, OF action_item_written_back f(5)]
      z_array_written_back [of timelineEventSchema js_of_timeline_event,
        OF timeline_event_written_back f(7)]
      z_array_written_back [of participantEngagementSchema js_of_participant_engagement,
        OF participant_engagement_written_back f(8)]
      z_array_written_back [of questionSchema js_of_question, OF question_written_back f(10)]
      z_array_written_back [of resourceLinkSchema js_of_resource_link,
        OF resource_link_written_back f(11)]
      f(12)
    by (simp add: z_number_Inr)
qed

lemma props_by_field:
  "(''id'', JStr (req_id r)) # (''email'', JStr (req_email r)) # props_of_metadata data =
     [(''id'', JStr (req_id r)),
              (''email'', JStr (req_email r)),
              (''title'', JStr (md_title data)),
              (''shortDescription'', JStr (md_shortDescription data)),
              (''description'', JStr (md_description data)),
              (''takeaways'', JArr (map JStr (md_takeaways data))),
              (''actionItems'', JArr (map (\<lambda>a. JObj
                 [(''id'', JStr (act_id a)), (''description'', JStr (act_description a)),
                  (''assignee'', JStr (act_assignee a)), (''deadline'', JStr (act_deadline a)),
                  (''status'', JStr (act_status a))]) (md_actionItems data))),
              (''moodGraph'', JObj
                 [(''aspects'', JArr (map (\<lambda>a. JObj
                     [(''mood'', JStr (asp_mood a)), (''score'', JNum (asp_score a))])
                     (mg_aspects (md_moodGraph data)))),
                  (''timestamp'', JStr (mg_timestamp (md_moodGraph data)))]),
              (''timeline'', JArr (map (\<lambda>t. JObj
                 [(''startTime'', JStr (tl_startTime t)), (''endTime'', JStr (tl_endTime t)),
                  (''topic'', JStr (tl_topic t)), (''speaker'', JStr (tl_speaker t))])
                 (md_timeline data))),
              (''participantEngagement'', JArr (map (\<lambda>e. JObj
                 [(''participantId'', JStr (pe_participantId e)),
                  (''speakingTime'', JNum (pe_speakingTime e)),
                  (''interventionCount'', JNum (pe_interventionCount e)),
                  (''engagementScore'', JNum (pe_engagementScore e))])
                 (md_participantEngagement data))),
              (''sentimentOverTime'', JObj
                 [(''overallSentiment'', JNum (sot_overallSentiment (md_sentimentOverTime data))),
                  (''sentimentPoints'', JArr (map (\<lambda>s. JObj
                     [(''timestamp'', JStr (sp_timestamp s)),
                      (''sentiment'', JNum (sp_sentiment s))])
                     (sot_sentimentPoints (md_sentimentOverTime data))))]),
              (''questionTracker'', JArr (map (\<lambda>q. JObj
                 [(''id'', JStr (q_id q)), (''text'', JStr (q_text q)),
                  (''askedBy'', JStr (q_askedBy q)), (''timestamp'', JStr (q_timestamp q)),
                  (''answered'', JBool (q_answered q))]) (md_questionTracker data))),
              (''resourceLinks'', JArr (map (\<lambda>l. JObj
                 [(''id'', JStr (rl_id l)), (''url'', JStr (rl_url l)),
                  (''title'', JStr (rl_title l)), (''type'', JStr (rl_type l)),
                  (''mentionedAt'', JStr (rl_mentionedAt l))]) (md_resourceLinks data))),
              (''meetingEfficiencyScore'', JNum (md_meetingEfficiencyScore data))]"
  by (simp add: props_of_metadata_def js_of_action_item_def js_of_aspect_def
      js_of_mood_graph_def js_of_timeline_event_def js_of_participant_engagement_def
      js_of_sentiment_point_def js_of_sentiment_over_time_def js_of_question_def
      js_of_resource_link_def comp_def)

text \<open>
  C9. When the answer passes metadata validation, the second event of the run is the PUT
  on the meeting endpoint. Its body is the object with the request's \<^verbatim>\<open>id\<close>, the
  request's \<^verbatim>\<open>email\<close> and the twelve fields of the validated data, each under the key
  of the schema and at every level with the keys of the schema only. Read from the
  answer, these fields are the answer's own values under the twelve keys, with every key
  outside the schema stripped from the nested objects. The validated data depends on the
  twelve keys of the answer only, so an answer with further keys, such as an \<^verbatim>\<open>id\<close> or
  an \<^verbatim>\<open>email\<close> of its own, gives the same data and the same body.
\<close>

theorem persisted_body:
  assumes "safeParse (requestSchema (isEmail env)) (body request) = Inr r"
    and "chatbot_answer env r = Inr answer"
    and "JSON_parse env answer = Some (JObj kvs)"
    and "safeParse insertMeetingMetadataSchema (JObj kvs) = Inr data"
  shows "(\<exists>rest. snd (handleSummary env request) =
            ask_event r #
            Fetch \<lparr>rq_url = JStr (env_string (BACKEND_API_URL env) @ ''/meeting''),
                   rq_method = ''PUT'',
                   rq_headers = [(''Content-Type'', ''application/json'')],
                   rq_body = Some (JsonText (JObj
             [(''id'', JStr (req_id r)),
              (''email'', JStr (req_email r)),
              (''title'', JStr (md_title data)),
              (''shortDescription'', JStr (md_shortDescription data)),
              (''description'', JStr (md_description data)),
              (''takeaways'', JArr (map JStr (md_takeaways data))),
              (''actionItems'', JArr (map (\<lambda>a. JObj
                 [(''id'', JStr (act_id a)), (''description'', JStr (act_description a)),
                  (''assignee'', JStr (act_assignee a)), (''deadline'', JStr (act_deadline a)),
                  (''status'', JStr (act_status a))]) (md_actionItems data))),
              (''moodGraph'', JObj
                 [(''aspects'', JArr (map (\<lambda>a. JObj
                     [(''mood'', JStr (asp_mood a)), (''score'', JNum (asp_score a))])
                     (mg_aspects (md_moodGraph data)))),
                  (''timestamp'', JStr (mg_timestamp (md_moodGraph data)))]),
              (''timeline'', JArr (map (\<lambda>t. JObj
                 [(''startTime'', JStr (tl_startTime t)), (''endTime'', JStr (tl_endTime t)),
                  (''topic'', JStr (tl_topic t)), (''speaker'', JStr (tl_speaker t))])
                 (md_timeline data))),
              (''participantEngagement'', JArr (map (\<lambda>e. JObj
                 [(''participantId'', JStr (pe_participantId e)),
                  (''speakingTime'', JNum (pe_speakingTime e)),
                  (''interventionCount'', JNum (pe_interventionCount e)),
                  (''engagementScore'', JNum (pe_engagementScore e))])
                 (md_participantEngagement data))),
              (''sentimentOverTime'', JObj
                 [(''overallSentiment'', JNum (sot_overallSentiment (md_sentimentOverTime data))),
                  (''sentimentPoints'', JArr (map (\<lambda>s. JObj
                     [(''timestamp'', JStr (sp_timestamp s)),
                      (''sentiment'', JNum (sp_sentiment s))])
                     (sot_sentimentPoints (md_sentimentOverTime data))))]),
              (''questionTracker'', JArr (map (\<lambda>q. JObj
                 [(''id'', JStr (q_id q)), (''text'', JStr (q_text q)),
                  (''askedBy'', JStr (q_askedBy q)), (''timestamp'', JStr (q_timestamp q)),
                  (''answered'', JBool (q_answered q))]) (md_questionTracker data))),
              (''resourceLinks'', JArr (map (\<lambda>l. JObj
                 [(''id'', JStr (rl_id l)), (''url'', JStr (rl_url l)),
                  (''title'', JStr (rl_title l)), (''type'', JStr (rl_type l)),
                  (''mentionedAt'', JStr (rl_mentionedAt l))]) (md_resourceLinks data))),
              (''meetingEfficiencyScore'', JNum (md_meetingEfficiencyScore data))]))\<rparr> # rest) \<and>
         [(''id'', JStr (req_id r)),
              (''email'', JStr (req_email r)),
              (''title'', JStr (md_title data)),
              (''shortDescription'', JStr (md_shortDescription data)),
              (''description'', JStr (md_description data)),
              (''takeaways'', JArr (map JStr (md_takeaways data))),
              (''actionItems'', JArr (map (\<lambda>a. JObj
                 [(''id'', JStr (act_id a)), (''description'', JStr (act_description a)),
                  (''assignee'', JStr (act_assignee a)), (''deadline'', JStr (act_deadline a)),
                  (''status'', JStr (act_status a))]) (md_actionItems data))),
              (''moodGraph'', JObj
                 [(''aspects'', JArr (map (\<lambda>a. JObj
                     [(''mood'', JStr (asp_mood a)), (''score'', JNum (asp_score a))])
                     (mg_aspects (md_moodGraph data)))),
                  (''timestamp'', JStr (mg_timestamp (md_moodGraph data)))]),
              (''timeline'', JArr (map (\<lambda>t. JObj
                 [(''startTime'', JStr (tl_startTime t)), (''endTime'', JStr (tl_endTime t)),
                  (''topic'', JStr (tl_topic t)), (''speaker'', JStr (tl_speaker t))])
                 (md_timeline data))),
              (''participantEngagement'', JArr (map (\<lambda>e. JObj
                 [(''participantId'', JStr (pe_participantId e)),
                  (''speakingTime'', JNum (pe_speakingTime e)),
                  (''interventionCount'', JNum (pe_interventionCount e)),
                  (''engagementScore'', JNum (pe_engagementScore e))])
                 (md_participantEngagement data))),
              (''sentimentOverTime'', JObj
                 [(''overallSentiment'', JNum (sot_overallSentiment (md_sentimentOverTime data))),
                  (''sentimentPoints'', JArr (map (\<lambda>s. JObj
                     [(''timestamp'', JStr (sp_timestamp s)),
                      (''sentiment'', JNum (sp_sentiment s))])
                     (sot_sentimentPoints (md_sentimentOverTime data))))]),
              (''questionTracker'', JArr (map (\<lambda>q. JObj
                 [(''id'', JStr (q_id q)), (''text'', JStr (q_text q)),
                  (''askedBy'', JStr (q_askedBy q)), (''timestamp'', JStr (q_timestamp q)),
                  (''answered'', JBool (q_answered q))]) (md_questionTracker data))),
              (''resourceLinks'', JArr (map (\<lambda>l. JObj
                 [(''id'', JStr (rl_id l)), (''url'', JStr (rl_url l)),
                  (''title'', JStr (rl_title l)), (''type'', JStr (rl_type l)),
                  (''mentionedAt'', JStr (rl_mentionedAt l))]) (md_resourceLinks data))),
              (''meetingEfficiencyScore'', JNum (md_meetingEfficiencyScore data))] =
         [(''id'', JStr (req_id r)),
              (''email'', JStr (req_email r)),
              (''title'', get_prop kvs ''title''),
              (''shortDescription'', get_prop kvs ''shortDescription''),
              (''description'', get_prop kvs ''description''),
              (''takeaways'', get_prop kvs ''takeaways''),
              (''actionItems'',
                 each (pick [''id'', ''description'', ''assignee'', ''deadline'', ''status''])
                   (get_prop kvs ''actionItems'')),
              (''moodGraph'', JObj
                 [(''aspects'',
                     each (pick [''mood'', ''score''])
                       (prop_of (get_prop kvs ''moodGraph'') ''aspects'')),
                  (''timestamp'', prop_of (get_prop kvs ''moodGraph'') ''timestamp'')]),
              (''timeline'',
                 each (pick [''startTime'', ''endTime'', ''topic'', ''speaker''])
                   (get_prop kvs ''timeline'')),
              (''participantEngagement'',
                 each (pick [''participantId'', ''speakingTime'', ''interventionCount'',
                             ''engagementScore''])
                   (get_prop kvs ''participantEngagement'')),
              (''sentimentOverTime'', JObj
                 [(''overallSentiment'',
                     prop_of (get_prop kvs ''sentimentOverTime'') ''overallSentiment''),
                  (''sentimentPoints'',
                     each (pick [''timestamp'', ''sentiment''])
                       (prop_of (get_prop kvs ''sentimentOverTime'') ''sentimentPoints''))]),
              (''questionTracker'',
                 each (pick [''id'', ''text'', ''askedBy'', ''timestamp'', ''answered''])
                   (get_prop kvs ''questionTracker'')),
              (''resourceLinks'',
                 each (pick [''id'', ''url'', ''title'', ''type'', ''mentionedAt''])
                   (get_prop kvs ''resourceLinks'')),
              (''meetingEfficiencyScore'', get_prop kvs ''meetingEfficiencyScore'')] \<and>
         (\<forall>kvs'. (\<forall>k \<in> set [''title'', ''shortDescription'', ''description'', ''takeaways'', ''actionItems'',
                 ''moodGraph'', ''timeline'', ''participantEngagement'', ''sentimentOverTime'',
                 ''questionTracker'', ''resourceLinks'', ''meetingEfficiencyScore''].
                    map_of kvs' k = map_of kvs k) \<longrightarrow>
            safeParse insertMeetingMetadataSchema (JObj kvs') = Inr data)"
proof (intro conjI allI impI)
  from run_persist_prefix [OF assms]
  show "\<exists>rest. snd (handleSummary env request) =
            ask_event r #
            Fetch \<lparr>rq_url = JStr (env_string (BACKEND_API_URL env) @ ''/meeting''),
                   rq_method = ''PUT'',
                   rq_headers = [(''Content-Type'', ''application/json'')],
                   rq_body = Some (JsonText (JObj
             [(''id'', JStr (req_id r)),
              (''email'', JStr (req_email r)),
              (''title'', JStr (md_title data)),
              (''shortDescription'', JStr (md_shortDescription data)),
              (''description'', JStr (md_description data)),
              (''takeaways'', JArr (map JStr (md_takeaways data))),
              (''actionItems'', JArr (map (\<lambda>a. JObj
                 [(''id'', JStr (act_id a)), (''description'', JStr (act_description a)),
                  (''assignee'', JStr (act_assignee a)), (''deadline'', JStr (act_deadline a)),
                  (''status'', JStr (act_status a))]) (md_actionItems data))),
              (''moodGraph'', JObj
                 [(''aspects'', JArr (map (\<lambda>a. JObj
                     [(''mood'', JStr (asp_mood a)), (''score'', JNum (asp_score a))])
                     (mg_aspects (md_moodGraph data)))),
                  (''timestamp'', JStr (mg_timestamp (md_moodGraph data)))]),
              (''timeline'', JArr (map (\<lambda>t. JObj
                 [(''startTime'', JStr (tl_startTime t)), (''endTime'', JStr (tl_endTime t)),
                  (''topic'', JStr (tl_topic t)), (''speaker'', JStr (tl_speaker t))])
                 (md_timeline data))),
              (''participantEngagement'', JArr (map (\<lambda>e. JObj
                 [(''participantId'', JStr (pe_participantId e)),
                  (''speakingTime'', JNum (pe_speakingTime e)),
                  (''interventionCount'', JNum (pe_interventionCount e)),
                  (''engagementScore'', JNum (pe_engagementScore e))])
                 (md_participantEngagement data))),
              (''sentimentOverTime'', JObj
                 [(''overallSentiment'', JNum (sot_overallSentiment (md_sentimentOverTime data))),
                  (''sentimentPoints'', JArr (map (\<lambda>s. JObj
                     [(''timestamp'', JStr (sp_timestamp s)),
                      (''sentiment'', JNum (sp_sentiment s))])
                     (sot_sentimentPoints (md_sentimentOverTime data))))]),
              (''questionTracker'', JArr (map (\<lambda>q. JObj
                 [(''id'', JStr (q_id q)), (''text'', JStr (q_text q)),
                  (''askedBy'', JStr (q_askedBy q)), (''timestamp'', JStr (q_timestamp q)),
                  (''answered'', JBool (q_answered q))]) (md_questionTracker data))),
              (''resourceLinks'', JArr (map (\<lambda>l. JObj
                 [(''id'', JStr (rl_id l)), (''url'', JStr (rl_url l)),
                  (''title'', JStr (rl_title l)), (''type'', JStr (rl_type l)),
                  (''mentionedAt'', JStr (rl_mentionedAt l))]) (md_resourceLinks data))),
              (''meetingEfficiencyScore'', JNum (md_meetingEfficiencyScore data))]))\<rparr> # rest"
    by (simp only: store_request_def meeting_request_def spread_metadata props_by_field)
next
  from props_written_back [OF assms(4)] props_by_field [of r data]
  show "[(''id'', JStr (req_id r)),
              (''email'', JStr (req_email r)),
              (''title'', JStr (md_title data)),
              (''shortDescription'', JStr (md_shortDescription data)),
              (''description'', JStr (md_description data)),
              (''takeaways'', JArr (map JStr (md_takeaways data))),
              (''actionItems'', JArr (map (\<lambda>a. JObj
                 [(''id'', JStr (act_id a)), (''description'', JStr (act_description a)),
                  (''assignee'', JStr (act_assignee a)), (''deadline'', JStr (act_deadline a)),
                  (''status'', JStr (act_status a))]) (md_actionItems data))),
              (''moodGraph'', JObj
                 [(''aspects'', JArr (map (\<lambda>a. JObj
                     [(''mood'', JStr (asp_mood a)), (''score'', JNum (asp_score a))])
                     (mg_aspects (md_moodGraph data)))),
                  (''timestamp'', JStr (mg_timestamp (md_moodGraph data)))]),
              (''timeline'', JArr (map (\<lambda>t. JObj
                 [(''startTime'', JStr (tl_startTime t)), (''endTime'', JStr (tl_endTime t)),
                  (''topic'', JStr (tl_topic t)), (''speaker'', JStr (tl_speaker t))])
                 (md_timeline data))),
              (''participantEngagement'', JArr (map (\<lambda>e. JObj
                 [(''participantId'', JStr (pe_participantId e)),
                  (''speakingTime'', JNum (pe_speakingTime e)),
                  (''interventionCount'', JNum (pe_interventionCount e)),
                  (''engagementScore'', JNum (pe_engagementScore e))])
                 (md_participantEngagement data))),
              (''sentimentOverTime'', JObj
                 [(''overallSentiment'', JNum (sot_overallSentiment (md_sentimentOverTime data))),
                  (''sentimentPoints'', JArr (map (\<lambda>s. JObj
                     [(''timestamp'', JStr (sp_timestamp s)),
                      (''sentiment'', JNum (sp_sentiment s))])
                     (sot_sentimentPoints (md_sentimentOverTime data))))]),
              (''questionTracker'', JArr (map (\<lambda>q. JObj
                 [(''id'', JStr (q_id q)), (''text'', JStr (q_text q)),
                  (''askedBy'', JStr (q_askedBy q)), (''timestamp'', JStr (q_timestamp q)),
                  (''answered'', JBool (q_answered q))]) (md_questionTracker data))),
              (''resourceLinks'', JArr (map (\<lambda>l. JObj
                 [(''id'', JStr (rl_id l)), (''url'', JStr (rl_url l)),
                  (''title'', JStr (rl_title l)), (''type'', JStr (rl_type l)),
                  (''mentionedAt'', JStr (rl_mentionedAt l))]) (md_resourceLinks data))),
              (''meetingEfficiencyScore'', JNum (md_meetingEfficiencyScore data))] =
         [(''id'', JStr (req_id r)),
              (''email'', JStr (req_email r)),
              (''title'', get_prop kvs ''title''),
              (''shortDescription'', get_prop kvs ''shortDescription''),
              (''description'', get_prop kvs ''description''),
              (''takeaways'', get_prop kvs ''takeaways''),
              (''actionItems'',
                 each (pick [''id'', ''description'', ''assignee'', ''deadline'', ''status''])
                   (get_prop kvs ''actionItems'')),
              (''moodGraph'', JObj
                 [(''aspects'',
                     each (pick [''mood'', ''score''])
                       (prop_of (get_prop kvs ''moodGraph'') ''aspects'')),
                  (''timestamp'', prop_of (get_prop kvs ''moodGraph'') ''timestamp'')]),
              (''timeline'',
                 each (pick [''startTime'', ''endTime'', ''topic'', ''speaker''])
                   (get_prop kvs ''timeline'')),
              (''participantEngagement'',
                 each (pick [''participantId'', ''speakingTime'', ''interventionCount'',
                             ''engagementScore''])
                   (get_prop kvs ''participantEngagement'')),
              (''sentimentOverTime'', JObj
                 [(''overallSentiment'',
                     prop_of (get_prop kvs ''sentimentOverTime'') ''overallSentiment''),
                  (''sentimentPoints'',
                     each (pick [''timestamp'', ''sentiment''])
                       (prop_of (get_prop kvs ''sentimentOverTime'') ''sentimentPoints''))]),
              (''questionTracker'',
                 each (pick [''id'', ''text'', ''askedBy'', ''timestamp'', ''answered''])
                   (get_prop kvs ''questionTracker'')),
              (''resourceLinks'',
                 each (pick [''id'', ''url'', ''title'', ''type'', ''mentionedAt''])
                   (get_prop kvs ''resourceLinks'')),
              (''meetingEfficiencyScore'', get_prop kvs ''meetingEfficiencyScore'')]"
    by simp
next
  fix kvs' :: "(string \<times> 'a js) list"
  assume "\<forall>k \<in> set [''title'', ''shortDescription'', ''description'', ''takeaways'', ''actionItems'',
                 ''moodGraph'', ''timeline'', ''participantEngagement'', ''sentimentOverTime'',
                 ''questionTracker'', ''resourceLinks'', ''meetingEfficiencyScore''].
                    map_of kvs' k = map_of kvs k"
  then have "\<forall>k \<in> set metadata_keys. map_of kvs' k = map_of kvs k"
    by (simp only: metadata_keys_def)
  from metadata_reads_schema_keys [OF this] assms(4)
  show "safeParse insertMeetingMetadataSchema (JObj kvs') = Inr data"
    by simp
qed

lemma request_reads_three_keys:
  assumes "safeParse (requestSchema is_email) (JObj kvs) = Inr r"
  shows "min_len 1 z_string [Key ''id''] (get_prop kvs ''id'') = Inr (req_id r)"
    and "email_check is_email z_string [Key ''email''] (get_prop kvs ''email'') = Inr (req_email r)"
    and "TranscriptSchema [Key ''transcript''] (get_prop kvs ''transcript'') = Inr (req_transcript r)"
  using assms
  by (auto simp: safeParse_def requestSchema_def z_object_JObj field_def map_result_Inr_iff
      both_Inr_iff)

lemma handleSummary_uses_three_fields:
  assumes "safeParse (requestSchema (isEmail env)) (body a) = Inr ra"
    and "safeParse (requestSchema (isEmail env)) (body b) = Inr rb"
    and "req_id ra = req_id rb" and "req_email ra = req_email rb"
    and "req_transcript ra = req_transcript rb"
  shows "handleSummary env a = handleSummary env b"
  using assms by (simp add: handleSummary_def Let_def)

text \<open>
  C10. Two valid requests whose bodies differ in \<^verbatim>\<open>startTime\<close>, \<^verbatim>\<open>endTime\<close> and
  \<^verbatim>\<open>participants\<close> only run alike against the same collaborators: the same result and
  the same trace, hence the same prompt, the same persisted body, the same deck and the
  same artifact name.
\<close>

theorem unused_request_fields:
  assumes "body a = JObj kvsa" and "body b = JObj kvsb"
    and "\<forall>k. k \<notin> {''startTime'', ''endTime'', ''participants''} \<longrightarrow>
           map_of kvsa k = map_of kvsb k"
    and "safeParse (requestSchema (isEmail env)) (body a) = Inr ra"
    and "safeParse (requestSchema (isEmail env)) (body b) = Inr rb"
  shows "handleSummary env a = handleSummary env b \<and>
         generatePrompt (req_transcript ra) = generatePrompt (req_transcript rb) \<and>
         artifact_name ra = artifact_name rb"
proof -
  from assms(3) have same: "get_prop kvsa ''id'' = get_prop kvsb ''id''"
    "get_prop kvsa ''email'' = get_prop kvsb ''email''"
    "get_prop kvsa ''transcript'' = get_prop kvsb ''transcript''"
    by (simp_all add: get_prop_def)
  from assms(1,4) have pa: "safeParse (requestSchema (isEmail env)) (JObj kvsa) = Inr ra"
    by simp
  from assms(2,5) have pb: "safeParse (requestSchema (isEmail env)) (JObj kvsb) = Inr rb"
    by simp
  from request_reads_three_keys [OF pa] request_reads_three_keys [OF pb] same
  have eq: "req_id ra = req_id rb" "req_email ra = req_email rb"
    "req_transcript ra = req_transcript rb"
    by simp_all
  from handleSummary_uses_three_fields [OF assms(4,5) eq] eq
  show ?thesis by (simp add: artifact_name_def)
qed


theorem handleSummary_missing_metadata_field_witness:
  "safeParse (requestSchema (isEmail (sample_env ''{}'' True True True)))
     (body sample_request) = Inr sample_request_data \<and>
   chatbot_answer (sample_env ''{}'' True True True) sample_request_data = Inr ''{}'' \<and>
   JSON_parse (sample_env ''{}'' True True True) ''{}'' = Some (JObj []) \<and>
   ''meetingEfficiencyScore'' \<in> set metadata_keys \<and>
   lacks_field (JObj [] :: rat js) ''meetingEfficiencyScore'' \<and>
   (\<exists>err. Issue [Key ''meetingEfficiencyScore''] Required \<in> set err \<and>
      handleSummary (sample_env ''{}'' True True True) sample_request =
        (Returned \<lparr>success = False, error = ValidationError err\<rparr>,
         [ask_event sample_request_data]))"
proof -
  let ?env = "sample_env ''{}'' True True True"
  have request: "safeParse (requestSchema (isEmail ?env)) (body sample_request) =
      Inr sample_request_data"
    by (rule sample_env_request)
  have answer: "chatbot_answer ?env sample_request_data = Inr ''{}''"
    by (rule sample_env_answer)
  have parse: "JSON_parse ?env ''{}'' = Some (JObj [])"
    by (rule sample_env_parse_empty_object)
  have key: "''meetingEfficiencyScore'' \<in> set metadata_keys"
    by (simp add: metadata_keys_def)
  have lacks: "lacks_field (JObj [] :: rat js) ''meetingEfficiencyScore''"
    by (simp add: lacks_field_def)
  from handleSummary_missing_metadata_field [OF request answer parse key lacks]
  have "\<exists>err. Issue [Key ''meetingEfficiencyScore''] Required \<in> set err \<and>
      handleSummary ?env sample_request =
        (Returned \<lparr>success = False, error = ValidationError err\<rparr>,
         [ask_event sample_request_data])"
    by auto
  with request answer parse key lacks show ?thesis by blast
qed

theorem handleSummary_invalid_request_witness:
  "\<not> has_valid_email (isEmail (sample_env sample_answer True True True))
       (body sample_request_no_email) \<and>
   handleSummary (sample_env sample_answer True True True) sample_request_no_email =
     (Returned \<lparr>success = False, error = Message ''Invalid request''\<rparr>, []) \<and>
   \<not> has_valid_email (isEmail (sample_env sample_answer True True True))
       (body sample_request_bad_email) \<and>
   handleSummary (sample_env sample_answer True True True) sample_request_bad_email =
     (Returned \<lparr>success = False, error = Message ''Invalid request''\<rparr>, [])"
proof -
  let ?env = "sample_env sample_answer True True True"
  have missing: "\<not> has_valid_email (isEmail ?env) (body sample_request_no_email)"
    by (simp add: has_valid_email_def sample_request_no_email_def get_prop_def)
  have malformed: "\<not> has_valid_email (isEmail ?env) (body sample_request_bad_email)"
    by (simp add: has_valid_email_def sample_request_bad_email_def get_prop_def sample_env_def
        sample_isEmail_def)
  from handleSummary_invalid_request [of ?env sample_request_no_email]
    handleSummary_invalid_request [of ?env sample_request_bad_email] missing malformed
  show ?thesis by blast
qed

lemma sample_with_id_parses:
  "safeParse insertMeetingMetadataSchema sample_metadata_js_with_id = Inr sample_metadata"
  by code_simp

theorem persisted_body_witness:
  "safeParse (requestSchema (isEmail (sample_env sample_answer_with_id True True True)))
     (body sample_request) = Inr sample_request_data \<and>
   chatbot_answer (sample_env sample_answer_with_id True True True) sample_request_data =
     Inr sample_answer_with_id \<and>
   JSON_parse (sample_env sample_answer_with_id True True True) sample_answer_with_id =
     Some (JObj ((''id'', JStr ''other'') # (''email'', JStr ''x@y.org'') #
                 sample_metadata_props)) \<and>
   safeParse insertMeetingMetadataSchema
     (JObj ((''id'', JStr ''other'') # (''email'', JStr ''x@y.org'') # sample_metadata_props)) =
     Inr sample_metadata \<and>
   (\<exists>rest. snd (handleSummary (sample_env sample_answer_with_id True True True)
                  sample_request) =
      ask_event sample_request_data #
      Fetch \<lparr>rq_url = JStr ''https://api.test/meeting'', rq_method = ''PUT'',
             rq_headers = [(''Content-Type'', ''application/json'')],
             rq_body = Some (JsonText (JObj
     [(''id'', JStr ''m1''),
      (''email'', JStr ''a@b.com''),
      (''title'', JStr ''Weekly sync''),
      (''shortDescription'', JStr ''Status''),
      (''description'', JStr ''Alice opened the meeting.''),
      (''takeaways'', JArr [JStr ''Greeting'', JStr ''Kick-off'']),
      (''actionItems'', JArr [JObj
         [(''id'', JStr ''a1''), (''description'', JStr ''Send notes''),
          (''assignee'', JStr ''Alice''), (''deadline'', JStr ''t2''),
          (''status'', JStr ''pending'')]]),
      (''moodGraph'', JObj
         [(''aspects'', JArr [JObj [(''mood'', JStr ''engagement''), (''score'', JNum 70)]]),
          (''timestamp'', JStr ''t0'')]),
      (''timeline'', JArr [JObj
         [(''startTime'', JStr ''t0''), (''endTime'', JStr ''t1''),
          (''topic'', JStr ''Opening''), (''speaker'', JStr ''Alice'')]]),
      (''participantEngagement'', JArr [JObj
         [(''participantId'', JStr ''Alice''), (''speakingTime'', JNum 5),
          (''interventionCount'', JNum 1), (''engagementScore'', JNum (9 / 10))]]),
      (''sentimentOverTime'', JObj
         [(''overallSentiment'', JNum (1 / 2)),
          (''sentimentPoints'', JArr [JObj
             [(''timestamp'', JStr ''t0''), (''sentiment'', JNum (1 / 2))]])]),
      (''questionTracker'', JArr [JObj
         [(''id'', JStr ''q1''), (''text'', JStr ''Ready?''), (''askedBy'', JStr ''Alice''),
          (''timestamp'', JStr ''t0''), (''answered'', JBool False)]]),
      (''resourceLinks'', JArr [JObj
         [(''id'', JStr ''r1''), (''url'', JStr ''https://example.com''),
          (''title'', JStr ''Agenda''), (''type'', JStr ''document''),
          (''mentionedAt'', JStr ''t0'')]]),
      (''meetingEfficiencyScore'', JNum 80)]))\<rparr> # rest) \<and>
   list_all (\<lambda>k.
      map_of sample_metadata_props k =
      map_of ((''id'', JStr ''other'') # (''email'', JStr ''x@y.org'') # sample_metadata_props) k)
     [''title'', ''shortDescription'', ''description'', ''takeaways'', ''actionItems'',
                 ''moodGraph'', ''timeline'', ''participantEngagement'', ''sentimentOverTime'',
                 ''questionTracker'', ''resourceLinks'', ''meetingEfficiencyScore''] \<and>
   safeParse insertMeetingMetadataSchema (JObj sample_metadata_props) = Inr sample_metadata"
proof -
  let ?env = "sample_env sample_answer_with_id True True True"
  let ?kvs = "(''id'', JStr ''other'') # (''email'', JStr ''x@y.org'') # sample_metadata_props"
  have request: "safeParse (requestSchema (isEmail ?env)) (body sample_request) =
      Inr sample_request_data"
    by (rule sample_env_request)
  have answer: "chatbot_answer ?env sample_request_data = Inr sample_answer_with_id"
    by (rule sample_env_answer)
  have parse: "JSON_parse ?env sample_answer_with_id = Some (JObj ?kvs)"
    using sample_env_parse_with_id [of sample_answer_with_id True True True]
    by (simp add: sample_metadata_js_with_id_def)
  have valid: "safeParse insertMeetingMetadataSchema (JObj ?kvs) = Inr sample_metadata"
    using sample_with_id_parses by (simp add: sample_metadata_js_with_id_def)
  have same: "\<forall>k \<in> set [''title'', ''shortDescription'', ''description'', ''takeaways'', ''actionItems'',
                 ''moodGraph'', ''timeline'', ''participantEngagement'', ''sentimentOverTime'',
                 ''questionTracker'', ''resourceLinks'', ''meetingEfficiencyScore''].
      map_of sample_metadata_props k = map_of ?kvs k"
    by simp
  note persisted = persisted_body [OF request answer parse valid]
  from persisted [THEN conjunct1]
  have sent: "\<exists>rest. snd (handleSummary ?env sample_request) =
      ask_event sample_request_data #
      Fetch \<lparr>rq_url = JStr ''https://api.test/meeting'', rq_method = ''PUT'',
             rq_headers = [(''Content-Type'', ''application/json'')],
             rq_body = Some (JsonText (JObj
     [(''id'', JStr ''m1''),
      (''email'', JStr ''a@b.com''),
      (''title'', JStr ''Weekly sync''),
      (''shortDescription'', JStr ''Status''),
      (''description'', JStr ''Alice opened the meeting.''),
      (''takeaways'', JArr [JStr ''Greeting'', JStr ''Kick-off'']),
      (''actionItems'', JArr [JObj
         [(''id'', JStr ''a1''), (''description'', JStr ''Send notes''),
          (''assignee'', JStr ''Alice''), (''deadline'', JStr ''t2''),
          (''status'', JStr ''pending'')]]),
      (''moodGraph'', JObj
         [(''aspects'', JArr [JObj [(''mood'', JStr ''engagement''), (''score'', JNum 70)]]),
          (''timestamp'', JStr ''t0'')]),
      (''timeline'', JArr [JObj
         [(''startTime'', JStr ''t0''), (''endTime'', JStr ''t1''),
          (''topic'', JStr ''Opening''), (''speaker'', JStr ''Alice'')]]),
      (''participantEngagement'', JArr [JObj
         [(''participantId'', JStr ''Alice''), (''speakingTime'', JNum 5),
          (''interventionCount'', JNum 1), (''engagementScore'', JNum (9 / 10))]]),
      (''sentimentOverTime'', JObj
         [(''overallSentiment'', JNum (1 / 2)),
          (''sentimentPoints'', JArr [JObj
             [(''timestamp'', JStr ''t0''), (''sentiment'', JNum (1 / 2))]])]),
      (''questionTracker'', JArr [JObj
         [(''id'', JStr ''q1''), (''text'', JStr ''Ready?''), (''askedBy'', JStr ''Alice''),
          (''timestamp'', JStr ''t0''), (''answered'', JBool False)]]),
      (''resourceLinks'', JArr [JObj
         [(''id'', JStr ''r1''), (''url'', JStr ''https://example.com''),
          (''title'', JStr ''Agenda''), (''type'', JStr ''document''),
          (''mentionedAt'', JStr ''t0'')]]),
      (''meetingEfficiencyScore'', JNum 80)]))\<rparr> # rest"
    by (simp add: sample_env_def env_string_def sample_request_data_def sample_metadata_def)
  from persisted same
  have stripped: "safeParse insertMeetingMetadataSchema (JObj sample_metadata_props) =
      Inr sample_metadata"
    by blast
  from same have listed: "list_all (\<lambda>k. map_of sample_metadata_props k = map_of ?kvs k)
     [''title'', ''shortDescription'', ''description'', ''takeaways'', ''actionItems'',
                 ''moodGraph'', ''timeline'', ''participantEngagement'', ''sentimentOverTime'',
                 ''questionTracker'', ''resourceLinks'', ''meetingEfficiencyScore'']"
    by (simp only: list_all_iff)
  from request answer parse valid sent listed stripped show ?thesis by blast
qed

lemma sample_other_times_parses:
  "safeParse (requestSchema sample_isEmail) (body sample_request_other_times) =
     Inr sample_request_data_other_times"
  by code_simp

theorem unused_request_fields_witness:
  "body sample_request = JObj
     [(''id'', JStr ''m1''), (''email'', JStr ''a@b.com''), (''startTime'', JStr ''t0''),
      (''endTime'', JStr ''t1''), (''participants'', JArr [JStr ''Alice'']),
      (''transcript'', JArr [JObj
         [(''personName'', JStr ''Alice''), (''timestamp'', JStr ''t0''),
          (''text'', JStr ''hello'')]])] \<and>
   body sample_request_other_times = JObj
     [(''id'', JStr ''m1''), (''email'', JStr ''a@b.com''), (''startTime'', JStr ''t5''),
      (''endTime'', JStr ''t9''), (''participants'', JArr [JStr ''Bob'', JStr ''Carol'']),
      (''transcript'', JArr [JObj
         [(''personName'', JStr ''Alice''), (''timestamp'', JStr ''t0''),
          (''text'', JStr ''hello'')]])] \<and>
   safeParse (requestSchema (isEmail (sample_env sample_answer True True True)))
     (body sample_request) = Inr sample_request_data \<and>
   safeParse (requestSchema (isEmail (sample_env sample_answer True True True)))
     (body sample_request_other_times) = Inr sample_request_data_other_times \<and>
   sample_request_data \<noteq> sample_request_data_other_times \<and>
   handleSummary (sample_env sample_answer True True True) sample_request =
     handleSummary (sample_env sample_answer True True True) sample_request_other_times"
proof -
  let ?env = "sample_env sample_answer True True True"
  let ?a = "[(''id'', JStr ''m1''), (''email'', JStr ''a@b.com''), (''startTime'', JStr ''t0''),
      (''endTime'', JStr ''t1''), (''participants'', JArr [JStr ''Alice'']),
      (''transcript'', JArr [JObj
         [(''personName'', JStr ''Alice''), (''timestamp'', JStr ''t0''),
          (''text'', JStr ''hello'')]])] :: (string \<times> rat js) list"
  let ?b = "[(''id'', JStr ''m1''), (''email'', JStr ''a@b.com''), (''startTime'', JStr ''t5''),
      (''endTime'', JStr ''t9''), (''participants'', JArr [JStr ''Bob'', JStr ''Carol'']),
      (''transcript'', JArr [JObj
         [(''personName'', JStr ''Alice''), (''timestamp'', JStr ''t0''),
          (''text'', JStr ''hello'')]])] :: (string \<times> rat js) list"
  have a: "body sample_request = JObj ?a"
    by (simp add: sample_request_def)
  have b: "body sample_request_other_times = JObj ?b"
    by (simp add: sample_request_other_times_def)
  have same: "\<forall>k. k \<notin> {''startTime'', ''endTime'', ''participants''} \<longrightarrow>
      map_of ?a k = map_of ?b k"
    by simp
  have pa: "safeParse (requestSchema (isEmail ?env)) (body sample_request) =
      Inr sample_request_data"
    by (rule sample_env_request)
  have pb: "safeParse (requestSchema (isEmail ?env)) (body sample_request_other_times) =
      Inr sample_request_data_other_times"
    using sample_other_times_parses by (simp add: sample_env_def)
  have different: "sample_request_data \<noteq> sample_request_data_other_times"
    by (simp add: sample_request_data_def sample_request_data_other_times_def)
  from unused_request_fields [OF a b same pa pb] a b pa pb different
  show ?thesis by blast
qed

section \<open>Properties of the presentation renderer\<close>

lemma forEach_from_addText:
  "slide < length p \<Longrightarrow>
   forEach_from i (\<lambda>x index. addText slide (g x) (line_options index)) xs p =
     p[slide := p ! slide @ map (\<lambda>(index, x). (g x, line_options index)) (enumerate i xs)]"
proof (induction xs arbitrary: i p)
  case Nil
  then show ?case by simp
next
  case (Cons x xs)
  let ?q = "addText slide (g x) (line_options i) p"
  from Cons.prems have len: "slide < length ?q"
    by (simp add: addText_def)
  from Cons.IH [OF len, of "Suc i"] Cons.prems show ?case
    by (simp add: addText_def)
qed

lemma generatePresentation_slides:
  "generatePresentation data ident = PptxFile
     [[(md_title data,
        \<lparr>opt_x = 1, opt_y = 1, opt_w = Some ''80%'', opt_h = Some 1, opt_fontSize = 24,
         opt_bold = Some True\<rparr>)],
      [(''Summary'', heading_options),
       (md_description data,
        \<lparr>opt_x = 1, opt_y = 1, opt_w = Some ''80%'', opt_h = Some 4, opt_fontSize = 14,
         opt_bold = None\<rparr>)],
      (''Key Points'', heading_options) #
        map (\<lambda>(index, point). (bullet @ point, line_options index))
          (enumerate 0 (md_takeaways data)),
      (''Action Items'', heading_options) #
        map (\<lambda>(index, item). (bullet @ act_description item, line_options index))
          (enumerate 0 (md_actionItems data))]"
  by (simp add: generatePresentation_def addSlide_def forEach_def pptx_write_def
      forEach_from_addText [where g = "\<lambda>point. bullet @ point"]
      forEach_from_addText [where g = "\<lambda>item. bullet @ act_description item"]
      addText_def)

text \<open>
  C6. For every metadata value of the strict shape the deck has exactly four slides, in
  this order: the title slide with the title; the summary slide with its heading and the
  description; the key-points slide with its heading and one line per takeaway, in list
  order; the action-items slide with its heading and one line per action item's
  description, in list order. Every such line is the bullet U+2022 (in UTF-8 the bytes
  E2 80 A2), a space and the entry, and the line of index \<open>i\<close> lies at \<open>y = 1 + i / 2\<close>,
  so the lines are stacked half a unit apart below the heading at \<open>y = 1 / 2\<close>. With no
  takeaways the key-points slide holds its heading only. Texts, positions, sizes and
  fonts are written out as the source passes them.
\<close>

theorem generatePresentation_deck:
  "generatePresentation data ident = PptxFile
     [[(md_title data,
        \<lparr>opt_x = 1, opt_y = 1, opt_w = Some ''80%'', opt_h = Some 1, opt_fontSize = 24,
         opt_bold = Some True\<rparr>)],
      [(''Summary'',
        \<lparr>opt_x = 1, opt_y = 1 / 2, opt_w = None, opt_h = None, opt_fontSize = 18,
         opt_bold = Some True\<rparr>),
       (md_description data,
        \<lparr>opt_x = 1, opt_y = 1, opt_w = Some ''80%'', opt_h = Some 4, opt_fontSize = 14,
         opt_bold = None\<rparr>)],
      (''Key Points'',
        \<lparr>opt_x = 1, opt_y = 1 / 2, opt_w = None, opt_h = None, opt_fontSize = 18,
         opt_bold = Some True\<rparr>) #
        map (\<lambda>(index, point).
               (CHR 0xE2 # CHR 0x80 # CHR 0xA2 # CHR '' '' # point,
                \<lparr>opt_x = 1, opt_y = 1 + of_nat index * (1 / 2), opt_w = None, opt_h = None,
                 opt_fontSize = 14, opt_bold = None\<rparr>))
          (enumerate 0 (md_takeaways data)),
      (''Action Items'',
        \<lparr>opt_x = 1, opt_y = 1 / 2, opt_w = None, opt_h = None, opt_fontSize = 18,
         opt_bold = Some True\<rparr>) #
        map (\<lambda>(index, item).
               (CHR 0xE2 # CHR 0x80 # CHR 0xA2 # CHR '' '' # act_description item,
                \<lparr>opt_x = 1, opt_y = 1 + of_nat index * (1 / 2), opt_w = None, opt_h = None,
                 opt_fontSize = 14, opt_bold = None\<rparr>))
          (enumerate 0 (md_actionItems data))]"
  by (simp add: generatePresentation_slides bullet_def heading_options_def line_options_def)

theorem generatePresentation_deck_witness:
  "generatePresentation (sample_metadata\<lparr>md_takeaways := []\<rparr>) ''m1'' = PptxFile
     [[(''Weekly sync'',
        \<lparr>opt_x = 1, opt_y = 1, opt_w = Some ''80%'', opt_h = Some 1, opt_fontSize = 24,
         opt_bold = Some True\<rparr>)],
      [(''Summary'',
        \<lparr>opt_x = 1, opt_y = 1 / 2, opt_w = None, opt_h = None, opt_fontSize = 18,
         opt_bold = Some True\<rparr>),
       (''Alice opened the meeting.'',
        \<lparr>opt_x = 1, opt_y = 1, opt_w = Some ''80%'', opt_h = Some 4, opt_fontSize = 14,
         opt_bold = None\<rparr>)],
      [(''Key Points'',
        \<lparr>opt_x = 1, opt_y = 1 / 2, opt_w = None, opt_h = None, opt_fontSize = 18,
         opt_bold = Some True\<rparr>)],
      [(''Action Items'',
        \<lparr>opt_x = 1, opt_y = 1 / 2, opt_w = None, opt_h = None, opt_fontSize = 18,
         opt_bold = Some True\<rparr>),
       ([CHR 0xE2, CHR 0x80, CHR 0xA2] @ '' Send notes'',
        \<lparr>opt_x = 1, opt_y = 1, opt_w = None, opt_h = None, opt_fontSize = 14,
         opt_bold = None\<rparr>)]] \<and>
   generatePresentation sample_metadata ''m1'' = PptxFile
     [[(''Weekly sync'',
        \<lparr>opt_x = 1, opt_y = 1, opt_w = Some ''80%'', opt_h = Some 1, opt_fontSize = 24,
         opt_bold = Some True\<rparr>)],
      [(''Summary'',
        \<lparr>opt_x = 1, opt_y = 1 / 2, opt_w = None, opt_h = None, opt_fontSize = 18,
         opt_bold = Some True\<rparr>),
       (''Alice opened the meeting.'',
        \<lparr>opt_x = 1, opt_y = 1, opt_w = Some ''80%'', opt_h = Some 4, opt_fontSize = 14,
         opt_bold = None\<rparr>)],
      [(''Key Points'',
        \<lparr>opt_x = 1, opt_y = 1 / 2, opt_w = None, opt_h = None, opt_fontSize = 18,
         opt_bold = Some True\<rparr>),
       ([CHR 0xE2, CHR 0x80, CHR 0xA2] @ '' Greeting'',
        \<lparr>opt_x = 1, opt_y = 1, opt_w = None, opt_h = None, opt_fontSize = 14,
         opt_bold = None\<rparr>),
       ([CHR 0xE2, CHR 0x80, CHR 0xA2] @ '' Kick-off'',
        \<lparr>opt_x = 1, opt_y = 3 / 2, opt_w = None, opt_h = None, opt_fontSize = 14,
         opt_bold = None\<rparr>)],
      [(''Action Items'',
        \<lparr>opt_x = 1, opt_y = 1 / 2, opt_w = None, opt_h = None, opt_fontSize = 18,
         opt_bold = Some True\<rparr>),
       ([CHR 0xE2, CHR 0x80, CHR 0xA2] @ '' Send notes'',
        \<lparr>opt_x = 1, opt_y = 1, opt_w = None, opt_h = None, opt_fontSize = 14,
         opt_bold = None\<rparr>)]]"
  using generatePresentation_deck [of "sample_metadata\<lparr>md_takeaways := []\<rparr>" "''m1''"]
    generatePresentation_deck [of sample_metadata "''m1''"]
  by (simp add: sample_metadata_def)

section \<open>Properties of the prompt builder\<close>
















































end
